theory Spec2Isabelle
  imports Main
begin

section \<open>Strings\<close>

text \<open>
  The program is a TypeScript single-page application. A string of the program is a
  sequence of UTF-16 code units; the model takes a code unit as an integer and a string
  as a list of code units. \<open>js\<close> turns an ASCII literal into such a string.
\<close>

type_synonym jstring = "int list"

definition js :: "string \<Rightarrow> jstring" where
  "js s = map of_char s"

text \<open>
  \<open>trim\<close> removes white space and line terminators from both ends: the characters 9 to
  13, the space, the no-break space, the other space separators of Unicode, the line and
  paragraph separators and the byte order mark. The class \<open>\s\<close> of a regular expression
  is the same set.
\<close>

definition isWhiteSpace :: "int \<Rightarrow> bool" where
  "isWhiteSpace u =
     ((9 \<le> u \<and> u \<le> 13) \<or> u = 32 \<or> u = 160 \<or> u = 0x1680 \<or> (0x2000 \<le> u \<and> u \<le> 0x200A)
      \<or> u = 0x2028 \<or> u = 0x2029 \<or> u = 0x202F \<or> u = 0x205F \<or> u = 0x3000 \<or> u = 0xFEFF)"

definition trim :: "jstring \<Rightarrow> jstring" where
  "trim s = rev (dropWhile isWhiteSpace (rev (dropWhile isWhiteSpace s)))"

text \<open>
  \<open>toLowerCase\<close>. The letters A to Z and the capitals U+00C0 to U+00DE (without the
  multiplication sign U+00D7) move up by 32. The capital I with a dot above, U+0130,
  becomes the two code units of i and the combining dot above, the one lower-case form
  that is longer than its source. The Kelvin sign U+212A becomes k. Every other code unit
  is kept: where the language changes one of them, it puts one code unit for one code
  unit, neither ASCII nor white space, and the program compares lower-cased text with
  ASCII patterns only.
\<close>

definition lowerUnit :: "int \<Rightarrow> jstring" where
  "lowerUnit u =
     (if (65 \<le> u \<and> u \<le> 90) \<or> (192 \<le> u \<and> u \<le> 222 \<and> u \<noteq> 215) then [u + 32]
      else if u = 0x130 then [0x69, 0x307]
      else if u = 0x212A then [0x6B]
      else [u])"

definition toLowerCase :: "jstring \<Rightarrow> jstring" where
  "toLowerCase s = concat (map lowerUnit s)"

text \<open>
  \<open>toUpperCase\<close>, which the program uses for one test, the comparison with STOP. The
  letters a to z and U+00E0 to U+00FE (without the division sign U+00F7) move down by 32;
  the code units whose upper-case form holds an ASCII letter or is longer than one code
  unit are listed; the micro sign and the y with diaeresis go to their capitals above
  U+00FF. Every other code unit is kept: its upper-case form, where it has one, has no
  ASCII letter.
\<close>

definition upperUnit :: "int \<Rightarrow> jstring" where
  "upperUnit u =
     (if (97 \<le> u \<and> u \<le> 122) \<or> (224 \<le> u \<and> u \<le> 254 \<and> u \<noteq> 247) then [u - 32]
      else if u = 0xDF then js ''SS''
      else if u = 0xB5 then [0x39C]
      else if u = 0xFF then [0x178]
      else if u = 0x131 then js ''I''
      else if u = 0x17F then js ''S''
      else if u = 0x149 then [0x2BC, 0x4E]
      else if u = 0x1F0 then [0x4A, 0x30C]
      else if u = 0x1E96 then [0x48, 0x331]
      else if u = 0x1E97 then [0x54, 0x308]
      else if u = 0x1E98 then [0x57, 0x30A]
      else if u = 0x1E99 then [0x59, 0x30A]
      else if u = 0x1E9A then [0x41, 0x2BE]
      else if u = 0xFB00 then js ''FF''
      else if u = 0xFB01 then js ''FI''
      else if u = 0xFB02 then js ''FL''
      else if u = 0xFB03 then js ''FFI''
      else if u = 0xFB04 then js ''FFL''
      else if u = 0xFB05 \<or> u = 0xFB06 then js ''ST''
      else [u])"

definition toUpperCase :: "jstring \<Rightarrow> jstring" where
  "toUpperCase s = concat (map upperUnit s)"

text \<open>\<open>includesStr t p\<close> is \<open>t.includes(p)\<close>: the pattern occurs as a contiguous substring.\<close>

fun startsWith :: "jstring \<Rightarrow> jstring \<Rightarrow> bool" where
  "startsWith t [] = True"
| "startsWith [] (p # ps) = False"
| "startsWith (c # cs) (p # ps) = (c = p \<and> startsWith cs ps)"

fun includesStr :: "jstring \<Rightarrow> jstring \<Rightarrow> bool" where
  "includesStr [] p = (p = [])"
| "includesStr (c # cs) p = (startsWith (c # cs) p \<or> includesStr cs p)"

definition some :: "'a list \<Rightarrow> ('a \<Rightarrow> bool) \<Rightarrow> bool" where
  "some xs f = list_ex f xs"

subsection \<open>The two regular expressions of the time patterns\<close>

definition isDigit :: "int \<Rightarrow> bool" where
  "isDigit u = (48 \<le> u \<and> u \<le> 57)"

text \<open>\<open>:\d{2}\<close> at the start of the string.\<close>

fun colonTwoDigits :: "jstring \<Rightarrow> bool" where
  "colonTwoDigits (c # a # b # r) = (c = 58 \<and> isDigit a \<and> isDigit b)"
| "colonTwoDigits r = False"

text \<open>\<open>\d{1,2}:\d{2}\<close> at the start of the string: two digits are tried before one.\<close>

fun matchClockTime :: "jstring \<Rightarrow> bool" where
  "matchClockTime [] = False"
| "matchClockTime (d # r) =
     (isDigit d \<and>
      ((case r of [] \<Rightarrow> False | e # r' \<Rightarrow> isDigit e \<and> colonTwoDigits r') \<or> colonTwoDigits r))"

text \<open>
  \<open>\s*(am|pm)\<close> with the flag \<open>i\<close> at the start of the string. Neither alternative
  starts with white space, so skipping all the leading white space loses no match.
\<close>

definition spacesAmPm :: "jstring \<Rightarrow> bool" where
  "spacesAmPm r =
     (let r' = toLowerCase (take 2 (dropWhile isWhiteSpace r))
      in r' = js ''am'' \<or> r' = js ''pm'')"

text \<open>\<open>\d{1,2}\s*(am|pm)\<close> with the flag \<open>i\<close> at the start of the string.\<close>

fun matchHourAmPm :: "jstring \<Rightarrow> bool" where
  "matchHourAmPm [] = False"
| "matchHourAmPm (d # r) =
     (isDigit d \<and>
      ((case r of [] \<Rightarrow> False | e # r' \<Rightarrow> isDigit e \<and> spacesAmPm r') \<or> spacesAmPm r))"

text \<open>\<open>regex.test(text)\<close> for a regular expression without anchors: a match at any position.\<close>

fun test :: "(jstring \<Rightarrow> bool) \<Rightarrow> jstring \<Rightarrow> bool" where
  "test m [] = m []"
| "test m (c # cs) = (m (c # cs) \<or> test m cs)"

section \<open>The rule-based categorizer\<close>

datatype ResponseCategory =
  Yes | CallAtDifferentTime | No | NoResponse24h | DoNotContact | UnknownMessage

text \<open>The string each category is in the source (the type is a union of string literals).\<close>

fun categoryLabel :: "ResponseCategory \<Rightarrow> jstring" where
  "categoryLabel Yes = js ''Yes''"
| "categoryLabel CallAtDifferentTime = js ''Call at a different time''"
| "categoryLabel No = js ''No''"
| "categoryLabel NoResponse24h = js ''24 hours later (No response)''"
| "categoryLabel DoNotContact = js ''Do not contact''"
| "categoryLabel UnknownMessage = js ''Unknown message''"

definition dncPatterns :: "jstring list" where
  "dncPatterns =
     [js ''do not contact'', js ''don't contact'', js ''stop calling'', js ''stop texting'', js ''remove me'',
      js ''unsubscribe'', js ''opt out'', js ''do not call'', js ''don't call'', js ''never call'',
      js ''no more calls'', js ''take me off'', js ''remove from list'', js ''dnc'', js ''do not call list'']"

datatype Pattern = Str jstring | RegExpClockTime | RegExpHourAmPm

definition timePatterns :: "Pattern list" where
  "timePatterns =
     [Str (js ''call at''), Str (js ''call me at''), Str (js ''call back at''), Str (js ''different time''),
      Str (js ''another time''), Str (js ''later''), Str (js ''tomorrow''), Str (js ''next week''), Str (js ''schedule''),
      Str (js ''appointment''), Str (js ''when can''), Str (js ''what time''), Str (js ''what day''), Str (js ''monday''),
      Str (js ''tuesday''), Str (js ''wednesday''), Str (js ''thursday''), Str (js ''friday''), Str (js ''saturday''),
      Str (js ''sunday''), Str (js ''morning''), Str (js ''afternoon''), Str (js ''evening''), Str (js ''am''), Str (js ''pm''),
      RegExpClockTime, RegExpHourAmPm,
      Str (js ''between''), Str (js ''after''), Str (js ''before'')]"

fun matchesPattern :: "jstring \<Rightarrow> Pattern \<Rightarrow> bool" where
  "matchesPattern t (Str p) = includesStr t p"
| "matchesPattern t RegExpClockTime = test matchClockTime t"
| "matchesPattern t RegExpHourAmPm = test matchHourAmPm t"

definition yesPatterns :: "jstring list" where
  "yesPatterns =
     [js ''yes'', js ''yeah'', js ''yep'', js ''sure'', js ''ok'', js ''okay'', js ''sounds good'', js ''that works'',
      js ''go ahead'', js ''please do'', js ''call me'', js ''call back'', js ''reach out'', js ''contact me'',
      js ''i'm interested'', js ''interested'', js ''definitely'', js ''absolutely'', js ''of course'']"

definition noPatterns :: "jstring list" where
  "noPatterns =
     [js ''no'', js ''nope'', js ''not interested'', js ''not now'', js ''maybe later'', js ''not right now'',
      js ''can't'', js ''cannot'', js ''busy'', js ''not available'', js ''not a good time'', js ''decline'',
      js ''pass'', js ''not at this time'']"

definition categorizeUserResponsePatternMatching :: "jstring \<Rightarrow> ResponseCategory" where
  "categorizeUserResponsePatternMatching userText =
     (let text = trim (toLowerCase userText) in
      if some dncPatterns (\<lambda>pattern. includesStr text pattern) then DoNotContact
      else if some timePatterns (\<lambda>pattern. matchesPattern text pattern) then CallAtDifferentTime
      else if some yesPatterns (\<lambda>pattern. includesStr text pattern) then Yes
      else if some noPatterns (\<lambda>pattern. includesStr text pattern) then No
      else UnknownMessage)"

section \<open>The categorizer adapter\<close>

definition validCategories :: "ResponseCategory list" where
  "validCategories = [Yes, CallAtDifferentTime, No, NoResponse24h, DoNotContact, UnknownMessage]"

definition categoryMap :: "(jstring \<times> ResponseCategory) list" where
  "categoryMap =
     [(js ''yes'', Yes),
      (js ''call at a different time'', CallAtDifferentTime),
      (js ''no'', No),
      (js ''24 hours later (no response)'', NoResponse24h),
      (js ''24 hours later'', NoResponse24h),
      (js ''no response'', NoResponse24h),
      (js ''do not contact'', DoNotContact),
      (js ''do not call'', DoNotContact),
      (js ''dnc'', DoNotContact),
      (js ''unknown message'', UnknownMessage),
      (js ''unknown'', UnknownMessage)]"

definition isQuote :: "int \<Rightarrow> bool" where
  "isQuote u = (u = 0x22 \<or> u = 0x27)"

text \<open>
  \<open>.replace(/^["']|["']$/g, '')\<close>: one quote character is removed at the start and one at
  the end, when they are there.
\<close>

definition stripQuotes :: "jstring \<Rightarrow> jstring" where
  "stripQuotes s =
     (let s1 = (case s of [] \<Rightarrow> [] | c # r \<Rightarrow> if isQuote c then r else s)
      in if s1 \<noteq> [] \<and> isQuote (last s1) then butlast s1 else s1)"

text \<open>
  The loop over \<open>Object.entries(categoryMap)\<close>, which runs in the order of insertion and
  breaks at the first key that contains the answer or is contained in it.
\<close>

definition partialMatch :: "jstring \<Rightarrow> ResponseCategory option" where
  "partialMatch lowerCategory =
     map_option snd
       (find (\<lambda>(key, value). includesStr lowerCategory key \<or> includesStr key lowerCategory)
          categoryMap)"

text \<open>
  The normalisation of the classifier's answer; \<open>None\<close> is the invalid category, after
  which the source falls through to the pattern matching. (The two inherited property
  names that a lower-case answer can hit in \<open>categoryMap[lowerCategory]\<close>, \<open>constructor\<close>
  and \<open>__proto__\<close>, give an invalid category in the source and \<open>None\<close> here.)
\<close>

definition parseCategory :: "jstring \<Rightarrow> ResponseCategory option" where
  "parseCategory content =
     (let rawCategory = trim content;
          normalizedCategory = trim (stripQuotes rawCategory)
      in case find (\<lambda>c. categoryLabel c = normalizedCategory) validCategories of
           Some category \<Rightarrow> Some category
         | None \<Rightarrow>
             (let lowerCategory = toLowerCase normalizedCategory
              in case map_of categoryMap lowerCategory of
                   Some category \<Rightarrow> Some category
                 | None \<Rightarrow> partialMatch lowerCategory))"

text \<open>
  \<open>categorizeUserResponse\<close> is an async function with one point of suspension, the
  \<open>fetch\<close>. The part before it either returns a category or sends the request; the part
  after it reads the reply. A reply is \<open>None\<close> when the call fails in any way (an exception,
  a status that is not ok, a body without choices) and \<open>Some content\<close> otherwise, with the
  empty content for a missing one. \<open>apiKey\<close> is the value of the build-time variable
  \<open>VITE_OPENAI_API_KEY\<close>, \<open>None\<close> when it is not set.
\<close>

datatype Classification = Return ResponseCategory | Fetch jstring

definition categorizeUserResponseStart ::
  "bool \<Rightarrow> jstring option \<Rightarrow> jstring \<Rightarrow> Classification" where
  "categorizeUserResponseStart aiEnabled apiKey userText =
     (let text = trim (toLowerCase userText) in
      if text = [] \<or> length text < 2 then Return NoResponse24h
      else if \<not> aiEnabled then Return (categorizeUserResponsePatternMatching userText)
      else if apiKey \<noteq> None \<and> apiKey \<noteq> Some [] \<and> apiKey \<noteq> Some (js ''YOUR_API_KEY'')
           then Fetch userText
      else Return (categorizeUserResponsePatternMatching userText))"

definition categorizeUserResponseResume :: "jstring option \<Rightarrow> jstring \<Rightarrow> ResponseCategory" where
  "categorizeUserResponseResume reply userText =
     (case reply of
        None \<Rightarrow> categorizeUserResponsePatternMatching userText
      | Some content \<Rightarrow>
          (case parseCategory content of
             Some category \<Rightarrow> category
           | None \<Rightarrow> categorizeUserResponsePatternMatching userText))"

text \<open>
  The whole function, with the external classifier as a parameter: the category it
  resolves to, and the list of the requests it has sent.
\<close>

definition categorizeUserResponse ::
  "bool \<Rightarrow> jstring option \<Rightarrow> (jstring \<Rightarrow> jstring option) \<Rightarrow> jstring
     \<Rightarrow> ResponseCategory \<times> jstring list" where
  "categorizeUserResponse aiEnabled apiKey classifier userText =
     (case categorizeUserResponseStart aiEnabled apiKey userText of
        Return category \<Rightarrow> (category, [])
      | Fetch body \<Rightarrow> (categorizeUserResponseResume (classifier body) userText, [body]))"

text \<open>\<open>isConfirmVisitIntent\<close>: the request to switch to the Confirm Visit workflow.\<close>

definition confirmVisitPatterns :: "jstring list" where
  "confirmVisitPatterns =
     [js ''confirm a visit'', js ''confirm the visit'', js ''confirm my visit'', js ''confirm visit'',
      js ''confirm a appointment'', js ''confirm the appointment'', js ''confirm my appointment'',
      js ''confirm appointment'', js ''confirm my consultation'', js ''confirm the consultation'',
      js ''confirm consultation'', js ''want to confirm a visit'', js ''want to confirm visit'',
      js ''actually want to confirm'', js ''actually want to confirm a visit'',
      js ''actually want to confirm my visit'', js ''i want to confirm'', js ''id like to confirm'',
      js ''i'd like to confirm'', js ''appointment confirmation'', js ''confirm my scheduled'']"

definition isConfirmVisitIntent :: "jstring \<Rightarrow> bool" where
  "isConfirmVisitIntent userText =
     (let text = trim (toLowerCase userText)
      in some confirmVisitPatterns (\<lambda>pattern. includesStr text pattern))"

section \<open>The session\<close>

datatype ConversationState =
    initial
  | calling
  | call_accepted
  | call_declined
  | asking_if_wants_call
  | waiting_for_response
  | scheduling_time
  | time_scheduled
  | asking_better_time
  | asking_after_cancel
  | followup_next_day
  | unknown
  | ended
  | confirm_visit_initial
  | confirm_visit_waiting
  | confirm_visit_confirmed
  | confirm_visit_reschedule_question
  | confirm_visit_reschedule_waiting
  | confirm_visit_reschedule_selecting_time
  | confirm_visit_cancelled
  | confirm_visit_dnc

datatype Sender = Bot | User

text \<open>
  A message of the log. The fields \<open>id\<close> and \<open>timestamp\<close> of the source are read from the
  wall clock and are left out.
\<close>

record Message =
  msgText :: jstring
  sender :: Sender
  options :: "jstring list option"

text \<open>The \<open>Date\<close> the picker builds from \<open>date\<close>T\<open>hh\<close>:\<open>mm\<close>, kept as its three parts.\<close>

record DateTime =
  dateValue :: jstring
  hours24 :: nat
  minutes :: jstring

text \<open>
  The callbacks the program hands to \<open>setTimeout\<close> and \<open>setInterval\<close>, and the
  continuation of \<open>handleTextInput\<close> that waits for the classifier. A closure whose body
  is one \<open>addMessage('bot', text, options)\<close> is \<open>AddBotMessage\<close> with the text and the
  options it has captured. Timers that only touch the page (scrolling, the call screen's
  status line and clock, the hint under the text field) are not modelled.
\<close>

datatype Callback =
    StartConversation
  | ShowCallingNotification
  | DeclineFollowup
  | ShowDateTimePicker
  | ShowConfirmVisitRescheduleDateTimePicker
  | ConfirmVisitPrompt jstring
  | RescheduleQuestion
  | AddBotMessage jstring "jstring list option"
  | TimePassingAnimation
  | TimePassingFollowup
  | Classified jstring

text \<open>
  What the element \<open>inputArea\<close> of the page holds: nothing, the text field
  \<open>userTextInput\<close> with its send button, or one button for each option.
\<close>

datatype InputArea = Cleared | TextInput | OptionButtons "jstring list"

text \<open>
  The module's variables, the input area of the page, and \<open>timers\<close>: the callbacks that
  are scheduled and have not run yet, in the order of their scheduling.
\<close>

record Session =
  currentState :: ConversationState
  scheduledDateTime :: "DateTime option"
  messages :: "Message list"
  isAfter24HourFollowup :: bool
  userHasStopped :: bool
  selectedWorkflow :: jstring
  selectedVersion :: jstring
  aiEnabled :: bool
  inputArea :: InputArea
  timers :: "Callback list"

text \<open>
  What the program reads from outside: the API key of the build, the clock (as the formatted
  date and time of the appointment, one day after now) and the locale's formatting of a
  date and of a time.
\<close>

record Env =
  apiKey :: "jstring option"
  appointmentDateTime :: jstring
  formatDate :: "jstring \<Rightarrow> jstring"
  formatTime :: "nat \<Rightarrow> jstring \<Rightarrow> jstring"

definition ADT_INTRO_MESSAGE :: jstring where
  "ADT_INTRO_MESSAGE =
     js ''Hi, I'm ADT's Digital Assistant powered by AI! This chat may be monitored or recorded. Msg&DataRatesApply. STOP2end''"

definition clearInputArea :: "Session \<Rightarrow> Session" where
  "clearInputArea s = s\<lparr>inputArea := Cleared\<rparr>"

definition renderOptions :: "jstring list \<Rightarrow> Session \<Rightarrow> Session" where
  "renderOptions opts s =
     (if aiEnabled s then s\<lparr>inputArea := TextInput\<rparr> else s\<lparr>inputArea := OptionButtons opts\<rparr>)"

text \<open>
  \<open>renderMessages\<close> redraws the transcript, which the model does not hold, and then the
  input area from the last message of the log.
\<close>

definition renderMessages :: "Session \<Rightarrow> Session" where
  "renderMessages s =
     (if messages s = [] then clearInputArea s
      else
        (case options (last (messages s)) of
           Some opts \<Rightarrow>
             if sender (last (messages s)) = Bot then renderOptions opts s else clearInputArea s
         | None \<Rightarrow> clearInputArea s))"

definition addMessage :: "Sender \<Rightarrow> jstring \<Rightarrow> jstring list option \<Rightarrow> Session \<Rightarrow> Session" where
  "addMessage sndr txt opts s =
     (if sndr = Bot \<and> userHasStopped s then s
      else
        (let s1 = (if sndr = Bot \<and> length (messages s) = 0
                   then s\<lparr>messages := messages s @
                          [\<lparr>msgText = ADT_INTRO_MESSAGE, sender = Bot, options = None\<rparr>]\<rparr>
                   else s);
             s2 = s1\<lparr>messages := messages s1 @
                       [\<lparr>msgText = txt, sender = sndr, options = opts\<rparr>]\<rparr>
         in renderMessages s2))"

definition setTimeout :: "Callback \<Rightarrow> Session \<Rightarrow> Session" where
  "setTimeout callback s = s\<lparr>timers := timers s @ [callback]\<rparr>"

definition showCallingNotification :: "Session \<Rightarrow> Session" where
  "showCallingNotification s = s\<lparr>currentState := calling\<rparr>"

definition handleCallAccept :: "Session \<Rightarrow> Session" where
  "handleCallAccept s = s\<lparr>currentState := call_accepted\<rparr>"

definition sixOptions :: "jstring list" where
  "sixOptions =
     [js ''Yes'', js ''Call at a different time'', js ''No'', js ''24 hours later (No response)'',
      js ''Do not contact'', js ''Unknown message'']"

definition handleCallDecline :: "Session \<Rightarrow> Session" where
  "handleCallDecline s = setTimeout DeclineFollowup (s\<lparr>currentState := call_declined\<rparr>)"

definition declineFollowup :: "Session \<Rightarrow> Session" where
  "declineFollowup s =
     (let message =
            (if selectedWorkflow s = js ''product question''
             then js ''Hello, we received your product question. Would you like us to call you back to help?''
             else js ''Hello, we just called to reach out about our product! Would you like us to call you back?'')
      in (addMessage Bot message (Some sixOptions) s)\<lparr>currentState := waiting_for_response\<rparr>)"

definition showDateTimePicker :: "Session \<Rightarrow> Session" where
  "showDateTimePicker s = s\<lparr>currentState := scheduling_time\<rparr>"

text \<open>
  \<open>showTimePassingAnimation\<close> starts an interval that fills the progress bar (the two
  elements of the page it looks up are part of the page's fixed markup). The tick that
  reaches 100 clears the interval and schedules the follow-up.
\<close>

definition showTimePassingAnimation :: "Session \<Rightarrow> Session" where
  "showTimePassingAnimation s = setTimeout TimePassingAnimation s"

definition timePassingFollowup :: "Session \<Rightarrow> Session" where
  "timePassingFollowup s =
     (let s1 = addMessage Bot ADT_INTRO_MESSAGE None s;
          message =
            (if selectedWorkflow s1 = js ''product question''
             then js ''Hello, we called yesterday about your product question. Would you like to schedule a time for us to call you?''
             else js ''Hello, we called yesterday to reach out about our product! Would you like to schedule a time for us to call you?'');
          s2 = addMessage Bot message None s1;
          s3 = s2\<lparr>currentState := followup_next_day, isAfter24HourFollowup := True\<rparr>
      in setTimeout (AddBotMessage [] (Some [js ''Yes'', js ''No''])) s3)"

definition handleAfterCancelResponse :: "jstring \<Rightarrow> Session \<Rightarrow> Session" where
  "handleAfterCancelResponse option s =
     (if option = js ''Yes'' then setTimeout ShowDateTimePicker s
      else showTimePassingAnimation s)"

definition handleResponseToCallQuestion :: "jstring \<Rightarrow> Session \<Rightarrow> Session" where
  "handleResponseToCallQuestion option s =
     (if option = js ''Yes'' then
        (if isAfter24HourFollowup s
         then showDateTimePicker (s\<lparr>isAfter24HourFollowup := False\<rparr>)
         else setTimeout ShowCallingNotification s)
      else if option = js ''Call at a different time'' then showDateTimePicker s
      else if option = js ''No'' then
        (if isAfter24HourFollowup s then showTimePassingAnimation s
         else setTimeout
                (AddBotMessage (js ''Is there a better time that we can call you?'')
                   (Some [js ''Yes'', js ''No'']))
                (s\<lparr>currentState := asking_better_time\<rparr>))
      else if option = js ''No/No response'' then
        (if isAfter24HourFollowup s then showTimePassingAnimation s else s)
      else if option = js ''No response'' \<or> option = js ''24 hours later (No response)'' then
        (if isAfter24HourFollowup s then showTimePassingAnimation s
         else showTimePassingAnimation s)
      else if option = js ''Do not contact'' then
        (addMessage Bot (js ''Have a nice day!'') None s)\<lparr>currentState := ended\<rparr>
      else if option = js ''Unknown message'' then
        (addMessage Bot (js ''Unknown message received, transferring to messaging agent.'') None s)
          \<lparr>currentState := unknown\<rparr>
      else s)"

definition handleBetterTimeResponse :: "jstring \<Rightarrow> Session \<Rightarrow> Session" where
  "handleBetterTimeResponse option s =
     (if option = js ''Yes'' then showDateTimePicker s else showTimePassingAnimation s)"

subsection \<open>The Confirm Visit workflow\<close>

definition confirmVisitOptions :: "jstring list" where
  "confirmVisitOptions = [js ''Yes'', js ''No'', js ''Cancel Appointment'', js ''DNC'', js ''Unknown message'']"

definition initialMessage :: "Env \<Rightarrow> jstring" where
  "initialMessage env =
     js ''Hey John, you have a consultation scheduled for '' @ appointmentDateTime env @
     js '' at 123 Main Street, Anytown, ST 12345. A certified technician will be arriving. Will you be available for this appointment?''"

definition confirmVisitPrompt :: "jstring \<Rightarrow> Session \<Rightarrow> Session" where
  "confirmVisitPrompt message s =
     (addMessage Bot message (Some confirmVisitOptions) s)\<lparr>currentState := confirm_visit_waiting\<rparr>"

definition startConfirmVisitConversation :: "Env \<Rightarrow> Session \<Rightarrow> Session" where
  "startConfirmVisitConversation env s =
     setTimeout (ConfirmVisitPrompt (initialMessage env)) (s\<lparr>currentState := confirm_visit_initial\<rparr>)"

definition switchToConfirmVisitWorkflow :: "Env \<Rightarrow> Session \<Rightarrow> Session" where
  "switchToConfirmVisitWorkflow env s =
     setTimeout (ConfirmVisitPrompt (initialMessage env))
       (s\<lparr>selectedWorkflow := js ''confirm visit'', selectedVersion := js ''A'',
          currentState := confirm_visit_initial\<rparr>)"

definition rescheduleQuestion :: "Session \<Rightarrow> Session" where
  "rescheduleQuestion s =
     (addMessage Bot (js ''Is there a better time we could reschedule the appointment for?'')
        (Some [js ''Yes'', js ''No'']) s)\<lparr>currentState := confirm_visit_reschedule_waiting\<rparr>"

definition handleConfirmVisitResponse :: "jstring \<Rightarrow> Session \<Rightarrow> Session" where
  "handleConfirmVisitResponse option s =
     (case currentState s of
        confirm_visit_waiting \<Rightarrow>
          (if option = js ''Yes'' then
             setTimeout (AddBotMessage (js ''Great! We will see you then.'') None)
               (s\<lparr>currentState := confirm_visit_confirmed\<rparr>)
           else if option = js ''No'' then
             setTimeout RescheduleQuestion (s\<lparr>currentState := confirm_visit_reschedule_question\<rparr>)
           else if option = js ''Cancel Appointment'' then
             setTimeout RescheduleQuestion (s\<lparr>currentState := confirm_visit_reschedule_question\<rparr>)
           else if option = js ''Do not contact'' \<or> option = js ''DNC'' then
             setTimeout
               (AddBotMessage
                  (js ''Your appointment has been canceled and you will no longer receive notifications from this number.'')
                  None)
               (s\<lparr>currentState := confirm_visit_dnc\<rparr>)
           else if option = js ''Unknown message'' then
             setTimeout
               (AddBotMessage (js ''Unknown message received, transferring to messaging agent.'') None)
               (s\<lparr>currentState := unknown\<rparr>)
           else s)
      | confirm_visit_reschedule_waiting \<Rightarrow>
          (if option = js ''Yes'' then
             setTimeout ShowConfirmVisitRescheduleDateTimePicker
               (s\<lparr>currentState := confirm_visit_reschedule_selecting_time\<rparr>)
           else if option = js ''No'' then
             setTimeout
               (AddBotMessage
                  (js ''Your appointment has been canceled, please reach out if you would like to reschedule.'')
                  None)
               (s\<lparr>currentState := confirm_visit_cancelled\<rparr>)
           else if option = js ''Unknown message'' then
             setTimeout
               (AddBotMessage (js ''Unknown message received, transferring to messaging agent.'') None)
               (s\<lparr>currentState := unknown\<rparr>)
           else s)
      | _ \<Rightarrow> s)"

subsection \<open>Dispatch of an option and of a free text\<close>

definition handleOptionSelect :: "jstring \<Rightarrow> Session \<Rightarrow> Session" where
  "handleOptionSelect option s =
     (let s1 = addMessage User option None s in
      if selectedWorkflow s1 = js ''confirm visit'' then handleConfirmVisitResponse option s1
      else
        (case currentState s1 of
           waiting_for_response \<Rightarrow> handleResponseToCallQuestion option s1
         | followup_next_day \<Rightarrow> handleResponseToCallQuestion option s1
         | asking_better_time \<Rightarrow> handleBetterTimeResponse option s1
         | asking_after_cancel \<Rightarrow> handleAfterCancelResponse option s1
         | _ \<Rightarrow> s1))"

text \<open>
  \<open>handleTextInput\<close>, for the value of the text field; the handler returns at once when
  the page has no text field. When \<open>categorizeUserResponse\<close> returns without a request, the
  rest of the handler runs before any other event or timer; when it has sent a request, the
  rest waits among the pending callbacks as \<open>Classified userText\<close>.
\<close>

definition handleTextInput :: "Env \<Rightarrow> jstring \<Rightarrow> Session \<Rightarrow> Session" where
  "handleTextInput env inputValue s =
     (let userText = trim inputValue in
      if inputArea s \<noteq> TextInput then s
      else if userText = [] then s
      else if toUpperCase userText = js ''STOP'' then
        addMessage User userText None (s\<lparr>userHasStopped := True\<rparr>)
      else if selectedWorkflow s = js ''webform'' \<and> isConfirmVisitIntent userText then
        switchToConfirmVisitWorkflow env (addMessage User userText None s)
      else
        (let s1 = addMessage User userText None s in
         case categorizeUserResponseStart (aiEnabled s1) (apiKey env) userText of
           Return category \<Rightarrow> handleOptionSelect (categoryLabel category) s1
         | Fetch body \<Rightarrow> setTimeout (Classified userText) s1))"

definition classified :: "jstring option \<Rightarrow> jstring \<Rightarrow> Session \<Rightarrow> Session" where
  "classified reply userText s =
     handleOptionSelect (categoryLabel (categorizeUserResponseResume reply userText)) s"

subsection \<open>The date and time picker\<close>

definition padStart2 :: "jstring \<Rightarrow> jstring" where
  "padStart2 v = replicate (2 - length v) 48 @ v"

text \<open>
  \<open>handleDateTimeConfirm\<close>, for the values of the four pickers; \<open>hour\<close> is the number that
  \<open>parseInt\<close> reads from the hour picker. \<open>Inl\<close> carries the text of the alert, after which
  the handler returns and no variable has changed.
\<close>

definition handleDateTimeConfirm ::
  "Env \<Rightarrow> jstring \<Rightarrow> nat \<Rightarrow> jstring \<Rightarrow> jstring \<Rightarrow> Session \<Rightarrow> jstring + Session" where
  "handleDateTimeConfirm env date hour minute ampm s =
     (if date = [] \<or> minute = [] \<or> ampm = [] then Inl (js ''Please select both date and time'')
      else
        (let mins = padStart2 minute;
             h24 = (if ampm = js ''PM'' \<and> hour \<noteq> 12 then hour + 12
                    else if ampm = js ''AM'' \<and> hour = 12 then 0
                    else hour)
         in if h24 < 9 \<or> h24 \<ge> 17 then Inl (js ''Please select a time between 9:00 AM and 5:00 PM'')
            else if h24 = 17 \<and> mins \<noteq> js ''00'' then
              Inl (js ''Please select a time between 9:00 AM and 5:00 PM'')
            else
              (let s1 = s\<lparr>scheduledDateTime :=
                           Some \<lparr>dateValue = date, hours24 = h24, minutes = mins\<rparr>\<rparr>;
                   formattedDate = formatDate env date;
                   formattedTime = formatTime env h24 mins
               in if currentState s1 = confirm_visit_reschedule_selecting_time then
                    Inr ((addMessage Bot
                            (js ''Your appointment has been rescheduled for '' @ formattedDate @
                             js '' at '' @ formattedTime @ js ''. We'll see you then!'') None s1)
                         \<lparr>currentState := confirm_visit_confirmed\<rparr>)
                  else
                    Inr ((addMessage Bot
                            (js ''We will call you again on '' @ formattedDate @ js '' at '' @
                             formattedTime @ js ''.'') None s1)
                         \<lparr>currentState := time_scheduled\<rparr>))))"

definition handleDateTimeCancel :: "Session \<Rightarrow> Session" where
  "handleDateTimeCancel s =
     (if currentState s = confirm_visit_reschedule_selecting_time then
        setTimeout
          (AddBotMessage (js ''Is there a better time we could reschedule the appointment for?'')
             (Some [js ''Yes'', js ''No'']))
          (s\<lparr>currentState := confirm_visit_reschedule_waiting\<rparr>)
      else
        setTimeout
          (AddBotMessage
             (js ''No date and time selected. Would you like to select a date and time for us to call you back?'')
             (Some [js ''Yes'', js ''No'']))
          (s\<lparr>currentState := asking_after_cancel\<rparr>))"

definition handleEndCall :: "Session \<Rightarrow> Session" where
  "handleEndCall s =
     addMessage Bot (js ''Thank you for calling us! We will keep in contact using this number.'') None s"

subsection \<open>Start and reset\<close>

definition startProductQuestionConversation :: "Session \<Rightarrow> Session" where
  "startProductQuestionConversation s =
     setTimeout ShowCallingNotification
       (addMessage Bot (js ''We received your product question! We are calling now to help.'') None s)"

definition startConversation :: "Env \<Rightarrow> Session \<Rightarrow> Session" where
  "startConversation env s =
     (let s1 = s\<lparr>messages := [], currentState := initial, userHasStopped := False,
                 scheduledDateTime := None, isAfter24HourFollowup := False\<rparr>
      in if selectedWorkflow s1 = js ''product question'' then startProductQuestionConversation s1
         else if selectedWorkflow s1 = js ''confirm visit'' then startConfirmVisitConversation env s1
         else
           setTimeout ShowCallingNotification
             (if selectedVersion s1 = js ''A''
              then addMessage Bot (js ''We received your interest form! We are calling now.'') None s1
              else s1))"

definition resetConversation :: "Env \<Rightarrow> Session \<Rightarrow> Session" where
  "resetConversation env s =
     startConversation env
       (clearInputArea
          (s\<lparr>messages := [], currentState := initial, userHasStopped := False,
             scheduledDateTime := None, isAfter24HourFollowup := False\<rparr>))"

definition handleWorkflowSelect :: "Env \<Rightarrow> jstring \<Rightarrow> Session \<Rightarrow> Session" where
  "handleWorkflowSelect env workflow s =
     resetConversation env (s\<lparr>selectedWorkflow := workflow, selectedVersion := js ''A''\<rparr>)"

definition handleVersionSelect :: "Env \<Rightarrow> jstring \<Rightarrow> Session \<Rightarrow> Session" where
  "handleVersionSelect env version s =
     (let versionChanged = (selectedVersion s \<noteq> version);
          s1 = s\<lparr>selectedVersion := version\<rparr>
      in if versionChanged then resetConversation env s1
         else if messages s1 = [] then s1
         else
           (case options (last (messages s1)) of
              Some opts \<Rightarrow> if sender (last (messages s1)) = Bot then renderOptions opts s1 else s1
            | None \<Rightarrow> s1))"

definition handleAIToggle :: "Env \<Rightarrow> Session \<Rightarrow> Session" where
  "handleAIToggle env s = resetConversation env (s\<lparr>aiEnabled := \<not> aiEnabled s\<rparr>)"

section \<open>Events\<close>

text \<open>
  The program runs one handler at a time: a handler of the page, or a pending callback.
  \<open>Fire n reply\<close> runs the pending callback number \<open>n\<close>; \<open>reply\<close> is what the external
  classifier has answered, which only a pending classification reads. The events are
  those of the conversation. The handlers of the dataflow diagram, where a click on a
  state box assigns \<open>currentState\<close> and \<open>isAfter24HourFollowup\<close> and redraws the phone from
  an empty log, and those of the dialogue editor are not among them.
\<close>

datatype Event =
    SelectOption jstring
  | SubmitText jstring
  | CallAccept
  | CallDecline
  | EndCall
  | ConfirmDateTime jstring nat jstring jstring
  | CancelDateTime
  | ResetConversation
  | SelectWorkflow jstring
  | SelectVersion jstring
  | ToggleAI
  | Fire nat "jstring option"

fun fireCallback :: "Env \<Rightarrow> Callback \<Rightarrow> jstring option \<Rightarrow> Session \<Rightarrow> Session" where
  "fireCallback env StartConversation reply s = startConversation env s"
| "fireCallback env ShowCallingNotification reply s = showCallingNotification s"
| "fireCallback env DeclineFollowup reply s = declineFollowup s"
| "fireCallback env ShowDateTimePicker reply s = showDateTimePicker s"
| "fireCallback env ShowConfirmVisitRescheduleDateTimePicker reply s = s"
| "fireCallback env (ConfirmVisitPrompt message) reply s = confirmVisitPrompt message s"
| "fireCallback env RescheduleQuestion reply s = rescheduleQuestion s"
| "fireCallback env (AddBotMessage txt opts) reply s = addMessage Bot txt opts s"
| "fireCallback env TimePassingAnimation reply s = setTimeout TimePassingFollowup s"
| "fireCallback env TimePassingFollowup reply s = timePassingFollowup s"
| "fireCallback env (Classified userText) reply s = classified reply userText s"

definition fire :: "Env \<Rightarrow> nat \<Rightarrow> jstring option \<Rightarrow> Session \<Rightarrow> Session" where
  "fire env n reply s =
     (if n < length (timers s)
      then fireCallback env (timers s ! n) reply
             (s\<lparr>timers := take n (timers s) @ drop (Suc n) (timers s)\<rparr>)
      else s)"

fun step :: "Env \<Rightarrow> Event \<Rightarrow> Session \<Rightarrow> Session" where
  "step env (SelectOption option) s = handleOptionSelect option s"
| "step env (SubmitText inputValue) s = handleTextInput env inputValue s"
| "step env CallAccept s = handleCallAccept s"
| "step env CallDecline s = handleCallDecline s"
| "step env EndCall s = handleEndCall s"
| "step env (ConfirmDateTime date hour minute ampm) s =
     (case handleDateTimeConfirm env date hour minute ampm s of Inl alert \<Rightarrow> s | Inr s' \<Rightarrow> s')"
| "step env CancelDateTime s = handleDateTimeCancel s"
| "step env ResetConversation s = resetConversation env s"
| "step env (SelectWorkflow workflow) s = handleWorkflowSelect env workflow s"
| "step env (SelectVersion version) s = handleVersionSelect env version s"
| "step env ToggleAI s = handleAIToggle env s"
| "step env (Fire n reply) s = fire env n reply s"

fun run :: "Env \<Rightarrow> Event list \<Rightarrow> Session \<Rightarrow> Session" where
  "run env [] s = s"
| "run env (e # es) s = run env es (step env e s)"

text \<open>
  The events that start the conversation anew: those that run \<open>resetConversation\<close>, and
  the firing of the start that \<open>initApp\<close> has scheduled.
\<close>

fun restartsConversation :: "Event \<Rightarrow> Session \<Rightarrow> bool" where
  "restartsConversation ResetConversation s = True"
| "restartsConversation (SelectWorkflow workflow) s = True"
| "restartsConversation (SelectVersion version) s = (selectedVersion s \<noteq> version)"
| "restartsConversation ToggleAI s = True"
| "restartsConversation (Fire n reply) s = (n < length (timers s) \<and> timers s ! n = StartConversation)"
| "restartsConversation e s = False"

text \<open>A sequence of events none of which starts the conversation anew.\<close>

fun withoutRestart :: "Env \<Rightarrow> Event list \<Rightarrow> Session \<Rightarrow> bool" where
  "withoutRestart env [] s = True"
| "withoutRestart env (e # es) s =
     (\<not> restartsConversation e s \<and> withoutRestart env es (step env e s))"

definition botMessages :: "Session \<Rightarrow> Message list" where
  "botMessages s = filter (\<lambda>m. sender m = Bot) (messages s)"

text \<open>
  The session when \<open>initApp\<close> has run: the initial values of the module's variables, the
  empty input area of the page's markup, and the start of the conversation scheduled.
\<close>

definition loaded :: Session where
  "loaded =
     \<lparr>currentState = initial, scheduledDateTime = None, messages = [],
      isAfter24HourFollowup = False, userHasStopped = False, selectedWorkflow = js ''webform'',
      selectedVersion = js ''A'', aiEnabled = False, inputArea = Cleared,
      timers = [StartConversation]\<rparr>"

text \<open>The sessions the program can be in: those some sequence of events leads to.\<close>

inductive reachable :: "Env \<Rightarrow> Session \<Rightarrow> bool" for env :: Env where
  reachable_loaded: "reachable env loaded"
| reachable_step: "reachable env s \<Longrightarrow> reachable env (step env e s)"

section \<open>The transitions the handlers define\<close>

text \<open>
  The option labels for which a state has a transition: the case labels of
  \<open>handleResponseToCallQuestion\<close>, the comparisons of \<open>handleConfirmVisitResponse\<close>, and
  Yes and No, the two options of the question, in \<open>asking_better_time\<close> and
  \<open>asking_after_cancel\<close>.
\<close>

definition transitionDefined :: "jstring \<Rightarrow> ConversationState \<Rightarrow> jstring \<Rightarrow> bool" where
  "transitionDefined workflow state option =
     (if workflow = js ''confirm visit'' then
        (state = confirm_visit_waiting \<and>
           option \<in> set [js ''Yes'', js ''No'', js ''Cancel Appointment'', js ''Do not contact'',
                         js ''DNC'', js ''Unknown message''])
        \<or> (state = confirm_visit_reschedule_waiting \<and>
             option \<in> set [js ''Yes'', js ''No'', js ''Unknown message''])
      else
        ((state = waiting_for_response \<or> state = followup_next_day) \<and>
           option \<in> set [js ''Yes'', js ''Call at a different time'', js ''No'',
                         js ''No/No response'', js ''No response'',
                         js ''24 hours later (No response)'', js ''Do not contact'',
                         js ''Unknown message''])
        \<or> ((state = asking_better_time \<or> state = asking_after_cancel) \<and>
             option \<in> set [js ''Yes'', js ''No'']))"

section \<open>Example sessions\<close>

text \<open>An environment without an API key, so that every text is classified by the patterns.\<close>

definition exampleEnv :: Env where
  "exampleEnv =
     \<lparr>apiKey = None,
      appointmentDateTime = js ''Tuesday, November 3, 2026 at 10:00 AM'',
      formatDate = (\<lambda>date. date),
      formatTime = (\<lambda>h24 mins. (if h24 = 9 then js ''9'' else js ''?'') @ js '':'' @ mins @ js '' AM'')\<rparr>"

text \<open>
  The Confirm Visit workflow with the AI switched on, waiting for the answer to its first
  question: the page loads and starts, the AI is switched on, the workflow is chosen, and the
  pending callbacks run.
\<close>

definition confirmVisitWaiting :: Session where
  "confirmVisitWaiting =
     run exampleEnv
       [Fire 0 None, Fire 0 None, ToggleAI, Fire 0 None, SelectWorkflow (js ''confirm visit''),
        Fire 0 None]
       loaded"

text \<open>The Webform workflow after the call has been declined, 500 ms before the question.\<close>

definition declinedSession :: Session where
  "declinedSession = run exampleEnv [Fire 0 None, Fire 0 None, CallDecline] loaded"

text \<open>
  The Webform workflow with the AI switched on, after the declined call, an empty answer,
  the passing of the 24 hours and the follow-up question.
\<close>

definition followupSession :: Session where
  "followupSession =
     run exampleEnv
       [Fire 0 None, Fire 0 None, ToggleAI, Fire 0 None, CallDecline, Fire 0 None,
        SubmitText (js ''k''), Fire 0 None, Fire 0 None, Fire 0 None]
       loaded"

text \<open>The Webform workflow with the AI switched on, asking whether to call back.\<close>

definition webformWaiting :: Session where
  "webformWaiting =
     run exampleEnv
       [Fire 0 None, Fire 0 None, ToggleAI, Fire 0 None, CallDecline, Fire 0 None]
       loaded"

text \<open>
  The Webform workflow with the AI switched on, after the declined call and the answer
  "no", asking for a better time.
\<close>

definition askingBetterTime :: Session where
  "askingBetterTime =
     run exampleEnv
       [Fire 0 None, Fire 0 None, ToggleAI, Fire 0 None, CallDecline, Fire 0 None,
        SubmitText (js ''no''), Fire 0 None]
       loaded"

text \<open>The session \<open>webformWaiting\<close> after the user has sent the opt-out word.\<close>

definition optedOutSession :: Session where
  "optedOutSession = handleTextInput exampleEnv (js ''stop'') webformWaiting"

text \<open>
  An environment with an API key, and the session \<open>webformWaiting\<close> after the user has sent
  a text whose classification is with the external classifier.
\<close>

definition keyedEnv :: Env where
  "keyedEnv = exampleEnv\<lparr>apiKey := Some (js ''sk-example'')\<rparr>"

text \<open>An external classifier that answers Yes to every request.\<close>

definition alwaysYes :: "jstring \<Rightarrow> jstring option" where
  "alwaysYes body = Some (js ''Yes'')"

definition classifyingSession :: Session where
  "classifyingSession = handleTextInput keyedEnv (js ''yes please'') webformWaiting"

section \<open>What an opted-out session shows\<close>

text \<open>The opt-out flag together with the messages of the bot in the log.\<close>

definition optOutView :: "Session \<Rightarrow> bool \<times> Message list" where
  "optOutView s = (userHasStopped s, botMessages s)"

text \<open>
  In a session that has opted out the input area is empty and the last message of the log
  is one of the user.
\<close>

definition optedOutQuiet :: "Session \<Rightarrow> bool" where
  "optedOutQuiet s =
     (userHasStopped s \<longrightarrow>
        inputArea s = Cleared \<and> messages s \<noteq> [] \<and> sender (last (messages s)) = User)"

section \<open>Strings: auxiliary facts\<close>

lemma startsWith_iff: "startsWith t p \<longleftrightarrow> (\<exists>b. t = p @ b)"
  by (induction t p rule: startsWith.induct) auto

text \<open>\<open>includesStr\<close> is containment as a contiguous substring.\<close>

lemma includesStr_iff: "includesStr t p \<longleftrightarrow> (\<exists>a b. t = a @ p @ b)"
proof (induction t)
  case Nil
  then show ?case by simp
next
  case (Cons c cs)
  show ?case
  proof
    assume "includesStr (c # cs) p"
    then consider "startsWith (c # cs) p" | "includesStr cs p" by auto
    then show "\<exists>a b. c # cs = a @ p @ b"
    proof cases
      case 1
      then obtain b where "c # cs = p @ b" by (auto simp: startsWith_iff)
      then have "c # cs = [] @ p @ b" by simp
      then show ?thesis by blast
    next
      case 2
      then obtain a b where "cs = a @ p @ b" using Cons.IH by blast
      then have "c # cs = (c # a) @ p @ b" by simp
      then show ?thesis by blast
    qed
  next
    assume "\<exists>a b. c # cs = a @ p @ b"
    then obtain a b where ab: "c # cs = a @ p @ b" by blast
    show "includesStr (c # cs) p"
    proof (cases a)
      case Nil
      with ab have "startsWith (c # cs) p" by (auto simp: startsWith_iff)
      then show ?thesis by simp
    next
      case (Cons x xs)
      with ab have "cs = xs @ p @ b" by simp
      then have "includesStr cs p" using Cons.IH by blast
      then show ?thesis by simp
    qed
  qed
qed

lemma includesStr_length: "includesStr t p \<Longrightarrow> length p \<le> length t"
  by (auto simp: includesStr_iff)

lemma length_trim: "length (trim t) \<le> length t"
proof -
  have "length (trim t) \<le> length (rev (dropWhile isWhiteSpace t))"
    using length_dropWhile_le [of isWhiteSpace "rev (dropWhile isWhiteSpace t)"]
    by (simp add: trim_def)
  also have "\<dots> \<le> length t"
    using length_dropWhile_le [of isWhiteSpace t] by simp
  finally show ?thesis .
qed

lemma js_eq_iff: "js a = js b \<longleftrightarrow> a = b"
  unfolding js_def by (rule inj_map_eq_map) (rule inj_of_char)

lemma length_js: "length (js a) = length a"
  by (simp add: js_def)

lemma js_empty_iff: "js a = [] \<longleftrightarrow> a = []" "[] = js a \<longleftrightarrow> a = []"
  by (auto simp: js_def)

lemma js_append: "js a @ js b = js (a @ b)"
  by (simp add: js_def)

lemma upperUnit_nonempty: "upperUnit u \<noteq> []"
  by (simp add: upperUnit_def js_def)

lemma length_toUpperCase: "length u \<le> length (toUpperCase u)"
proof (induction u)
  case Nil
  then show ?case by (simp add: toUpperCase_def)
next
  case (Cons c u)
  have "1 \<le> length (upperUnit c)"
    using upperUnit_nonempty [of c] by (cases "upperUnit c") simp_all
  with Cons show ?case by (simp add: toUpperCase_def)
qed

text \<open>A lower-case form is at most twice as long as its source.\<close>

lemma length_toLowerCase: "length (toLowerCase u) \<le> 2 * length u"
proof (induction u)
  case Nil
  then show ?case by (simp add: toLowerCase_def)
next
  case (Cons c u)
  have "length (lowerUnit c) \<le> 2" by (simp add: lowerUnit_def)
  with Cons show ?case by (simp add: toLowerCase_def)
qed

section \<open>The scheduling validator\<close>

text \<open>
  Claim C1. The validator accepts exactly the business hours: 9:00 AM and 5:00 PM succeed,
  5:05 PM and 8:55 AM fail. On the code, 5:00 PM fails: the first test of the hour already
  rejects 17, so the special case for 17:00 below it is never reached. The theorem is the
  run of the handler on 5:00 PM, for any session and environment.
\<close>

theorem five_pm_is_rejected:
  "handleDateTimeConfirm env (js ''2026-11-03'') 5 (js ''00'') (js ''PM'') s =
     Inl (js ''Please select a time between 9:00 AM and 5:00 PM'')"
  by (simp add: handleDateTimeConfirm_def Let_def padStart2_def js_eq_iff js_empty_iff)

text \<open>The three other times of the claim behave as it says.\<close>

lemma nine_am_is_accepted:
  "handleDateTimeConfirm env (js ''2026-11-03'') 9 (js ''00'') (js ''AM'') s \<noteq> Inl alert"
  by (simp add: handleDateTimeConfirm_def Let_def padStart2_def js_eq_iff js_empty_iff)

lemma five_past_five_pm_is_rejected:
  "handleDateTimeConfirm env (js ''2026-11-03'') 5 (js ''05'') (js ''PM'') s =
     Inl (js ''Please select a time between 9:00 AM and 5:00 PM'')"
  by (simp add: handleDateTimeConfirm_def Let_def padStart2_def js_eq_iff js_empty_iff)

lemma five_to_nine_am_is_rejected:
  "handleDateTimeConfirm env (js ''2026-11-03'') 8 (js ''55'') (js ''AM'') s =
     Inl (js ''Please select a time between 9:00 AM and 5:00 PM'')"
  by (simp add: handleDateTimeConfirm_def Let_def padStart2_def js_eq_iff js_empty_iff)

section \<open>Dispatch of an option without a transition\<close>

text \<open>
  Claim C2, as amended. When the current state has no transition for the option and is
  neither \<open>asking_better_time\<close> nor \<open>asking_after_cancel\<close>, \<open>handleOptionSelect\<close> changes
  neither the conversation state nor any flag, schedules nothing and appends no message
  of the bot; it still appends the label as a message of the user (and so clears the
  input area), because it does that before it looks at the state. In \<open>asking_better_time\<close>
  and \<open>asking_after_cancel\<close> of the Webform and Product Question workflows no label is
  ignored: every label other than Yes takes the branch of No, which appends the label and
  starts the passing of the 24 hours.
\<close>

theorem undefined_option_logs_the_label_only:
  "(\<not> transitionDefined (selectedWorkflow s) (currentState s) option
      \<and> (selectedWorkflow s = js ''confirm visit''
           \<or> (currentState s \<noteq> asking_better_time \<and> currentState s \<noteq> asking_after_cancel))
    \<longrightarrow> handleOptionSelect option s =
          s\<lparr>messages := messages s @ [\<lparr>msgText = option, sender = User, options = None\<rparr>],
            inputArea := Cleared\<rparr>)
   \<and> (selectedWorkflow s \<noteq> js ''confirm visit''
      \<and> (currentState s = asking_better_time \<or> currentState s = asking_after_cancel)
      \<and> option \<noteq> js ''Yes''
    \<longrightarrow> handleOptionSelect option s =
          s\<lparr>messages := messages s @ [\<lparr>msgText = option, sender = User, options = None\<rparr>],
            inputArea := Cleared,
            timers := timers s @ [TimePassingAnimation]\<rparr>)"
  by (cases "currentState s")
     (auto simp: handleOptionSelect_def transitionDefined_def addMessage_def renderMessages_def
        clearInputArea_def Let_def handleConfirmVisitResponse_def handleResponseToCallQuestion_def
        handleBetterTimeResponse_def handleAfterCancelResponse_def showTimePassingAnimation_def
        setTimeout_def
        split: if_splits)

theorem undefined_option_logs_the_label_only_witness:
  "\<not> transitionDefined (selectedWorkflow confirmVisitWaiting) (currentState confirmVisitWaiting)
        (js ''No response'')
   \<and> selectedWorkflow confirmVisitWaiting = js ''confirm visit''
   \<and> handleOptionSelect (js ''No response'') confirmVisitWaiting =
       confirmVisitWaiting
         \<lparr>messages := messages confirmVisitWaiting @
            [\<lparr>msgText = js ''No response'', sender = User, options = None\<rparr>],
          inputArea := Cleared\<rparr>
   \<and> selectedWorkflow askingBetterTime \<noteq> js ''confirm visit''
   \<and> currentState askingBetterTime = asking_better_time
   \<and> js ''Unknown message'' \<noteq> js ''Yes''
   \<and> handleOptionSelect (js ''Unknown message'') askingBetterTime =
       askingBetterTime
         \<lparr>messages := messages askingBetterTime @
            [\<lparr>msgText = js ''Unknown message'', sender = User, options = None\<rparr>],
          inputArea := Cleared,
          timers := timers askingBetterTime @ [TimePassingAnimation]\<rparr>"
proof -
  have a: "\<not> transitionDefined (selectedWorkflow confirmVisitWaiting)
               (currentState confirmVisitWaiting) (js ''No response'')
           \<and> selectedWorkflow confirmVisitWaiting = js ''confirm visit''"
    by code_simp
  have b: "selectedWorkflow askingBetterTime \<noteq> js ''confirm visit''
           \<and> currentState askingBetterTime = asking_better_time
           \<and> js ''Unknown message'' \<noteq> js ''Yes''"
    by code_simp
  show ?thesis
    using a b
      undefined_option_logs_the_label_only [of confirmVisitWaiting "js ''No response''"]
      undefined_option_logs_the_label_only [of askingBetterTime "js ''Unknown message''"]
    by blast
qed

text \<open>
  The claim as stated fails, in two ways. In the Confirm Visit workflow the answer
  "tomorrow" is classified as Call at a different time, for which \<open>confirm_visit_waiting\<close>
  has no transition; its dispatch leaves the state alone and yet the log grows. In
  \<open>asking_better_time\<close>, where the question offers Yes and No, the answer "unsubscribe" is
  classified as Do not contact; its dispatch schedules the passing of the 24 hours, and
  when the two callbacks have run the session is in \<open>followup_next_day\<close> with new messages
  of the bot.
\<close>

theorem undefined_option_is_logged_counterexample:
  "\<not> transitionDefined (selectedWorkflow confirmVisitWaiting) (currentState confirmVisitWaiting)
        (js ''Call at a different time'')
   \<and> messages (handleOptionSelect (js ''Call at a different time'') confirmVisitWaiting)
       \<noteq> messages confirmVisitWaiting
   \<and> \<not> transitionDefined (selectedWorkflow askingBetterTime) (currentState askingBetterTime)
        (js ''Do not contact'')
   \<and> currentState askingBetterTime = asking_better_time
   \<and> timers askingBetterTime = []
   \<and> timers (handleOptionSelect (js ''Do not contact'') askingBetterTime)
       = [TimePassingAnimation]
   \<and> currentState
        (run exampleEnv [Fire 0 None, Fire 0 None]
           (handleOptionSelect (js ''Do not contact'') askingBetterTime))
       = followup_next_day
   \<and> botMessages
        (run exampleEnv [Fire 0 None, Fire 0 None]
           (handleOptionSelect (js ''Do not contact'') askingBetterTime))
       \<noteq> botMessages askingBetterTime"
  by code_simp

section \<open>The opt-out word\<close>

text \<open>
  Claim C6. When the trimmed text of the text field is STOP in any mix of cases,
  \<open>handleTextInput\<close> appends that text as a message of the user, sets \<open>userHasStopped\<close>
  and returns: the conversation state and the pending callbacks are as before, so there
  is no classification, no reply of the bot and no transition.
\<close>

theorem stop_opts_out_without_classification:
  assumes "inputArea s = TextInput" and "toUpperCase (trim v) = js ''STOP''"
  shows "handleTextInput env v s =
           s\<lparr>userHasStopped := True,
             messages := messages s @ [\<lparr>msgText = trim v, sender = User, options = None\<rparr>],
             inputArea := Cleared\<rparr>"
proof -
  have "trim v \<noteq> []" using assms(2) by (auto simp: toUpperCase_def js_empty_iff)
  with assms show ?thesis
    by (simp add: handleTextInput_def Let_def addMessage_def renderMessages_def clearInputArea_def)
qed

theorem stop_opts_out_without_classification_witness:
  "inputArea webformWaiting = TextInput \<and> toUpperCase (trim (js '' Stop '')) = js ''STOP'' \<and>
   handleTextInput exampleEnv (js '' Stop '') webformWaiting =
     webformWaiting
       \<lparr>userHasStopped := True,
        messages := messages webformWaiting @
          [\<lparr>msgText = trim (js '' Stop ''), sender = User, options = None\<rparr>],
        inputArea := Cleared\<rparr>"
proof -
  have a: "inputArea webformWaiting = TextInput" by code_simp
  have b: "toUpperCase (trim (js '' Stop '')) = js ''STOP''" by code_simp
  show ?thesis using a b stop_opts_out_without_classification [OF a b] by simp
qed

section \<open>The categorizers\<close>

text \<open>
  Claim C7. The rule-based categorizer tests the trimmed lower-case text against its groups
  of patterns in a fixed order, and the first group with a match decides: Do not contact,
  then Call at a different time, then Yes, then No, and Unknown message when no group
  matches. It never answers 24 hours later (No response), and a text that contains a
  pattern of the first group is Do not contact.
\<close>

theorem pattern_matching_priority:
  "(some dncPatterns (includesStr (trim (toLowerCase t)))
      \<longrightarrow> categorizeUserResponsePatternMatching t = DoNotContact)
   \<and> (\<not> some dncPatterns (includesStr (trim (toLowerCase t)))
      \<and> some timePatterns (matchesPattern (trim (toLowerCase t)))
      \<longrightarrow> categorizeUserResponsePatternMatching t = CallAtDifferentTime)
   \<and> (\<not> some dncPatterns (includesStr (trim (toLowerCase t)))
      \<and> \<not> some timePatterns (matchesPattern (trim (toLowerCase t)))
      \<and> some yesPatterns (includesStr (trim (toLowerCase t)))
      \<longrightarrow> categorizeUserResponsePatternMatching t = Yes)
   \<and> (\<not> some dncPatterns (includesStr (trim (toLowerCase t)))
      \<and> \<not> some timePatterns (matchesPattern (trim (toLowerCase t)))
      \<and> \<not> some yesPatterns (includesStr (trim (toLowerCase t)))
      \<and> some noPatterns (includesStr (trim (toLowerCase t)))
      \<longrightarrow> categorizeUserResponsePatternMatching t = No)
   \<and> (\<not> some dncPatterns (includesStr (trim (toLowerCase t)))
      \<and> \<not> some timePatterns (matchesPattern (trim (toLowerCase t)))
      \<and> \<not> some yesPatterns (includesStr (trim (toLowerCase t)))
      \<and> \<not> some noPatterns (includesStr (trim (toLowerCase t)))
      \<longrightarrow> categorizeUserResponsePatternMatching t = UnknownMessage)
   \<and> categorizeUserResponsePatternMatching t \<noteq> NoResponse24h
   \<and> (\<forall>p \<in> set dncPatterns. \<forall>a b. trim (toLowerCase t) = a @ p @ b
        \<longrightarrow> categorizeUserResponsePatternMatching t = DoNotContact)"
proof -
  have "\<And>p a b. p \<in> set dncPatterns \<Longrightarrow> trim (toLowerCase t) = a @ p @ b
      \<Longrightarrow> some dncPatterns (includesStr (trim (toLowerCase t)))"
    unfolding some_def list_ex_iff includesStr_iff by blast
  then show ?thesis
    by (auto simp: categorizeUserResponsePatternMatching_def Let_def)
qed

theorem pattern_matching_priority_witness:
  "categorizeUserResponsePatternMatching (js ''Please STOP calling me, not at 3pm, no'') = DoNotContact
   \<and> categorizeUserResponsePatternMatching (js ''Sure, at 10:30'') = CallAtDifferentTime
   \<and> categorizeUserResponsePatternMatching (js ''Yes, not busy'') = Yes
   \<and> categorizeUserResponsePatternMatching (js ''Nope'') = No
   \<and> categorizeUserResponsePatternMatching (js ''huh?'') = UnknownMessage
   \<and> (js ''unsubscribe'') \<in> set dncPatterns
   \<and> trim (toLowerCase (js '' Unsubscribe me tomorrow '')) = [] @ js ''unsubscribe'' @ js '' me tomorrow''
   \<and> categorizeUserResponsePatternMatching (js '' Unsubscribe me tomorrow '') = DoNotContact"
proof -
  have d: "some dncPatterns
             (includesStr (trim (toLowerCase (js ''Please STOP calling me, not at 3pm, no''))))"
    by code_simp
  have t: "\<not> some dncPatterns (includesStr (trim (toLowerCase (js ''Sure, at 10:30''))))
           \<and> some timePatterns (matchesPattern (trim (toLowerCase (js ''Sure, at 10:30''))))"
    by code_simp
  have y: "\<not> some dncPatterns (includesStr (trim (toLowerCase (js ''Yes, not busy''))))
           \<and> \<not> some timePatterns (matchesPattern (trim (toLowerCase (js ''Yes, not busy''))))
           \<and> some yesPatterns (includesStr (trim (toLowerCase (js ''Yes, not busy''))))"
    by code_simp
  have n: "\<not> some dncPatterns (includesStr (trim (toLowerCase (js ''Nope''))))
           \<and> \<not> some timePatterns (matchesPattern (trim (toLowerCase (js ''Nope''))))
           \<and> \<not> some yesPatterns (includesStr (trim (toLowerCase (js ''Nope''))))
           \<and> some noPatterns (includesStr (trim (toLowerCase (js ''Nope''))))"
    by code_simp
  have u: "\<not> some dncPatterns (includesStr (trim (toLowerCase (js ''huh?''))))
           \<and> \<not> some timePatterns (matchesPattern (trim (toLowerCase (js ''huh?''))))
           \<and> \<not> some yesPatterns (includesStr (trim (toLowerCase (js ''huh?''))))
           \<and> \<not> some noPatterns (includesStr (trim (toLowerCase (js ''huh?''))))"
    by code_simp
  have m: "(js ''unsubscribe'') \<in> set dncPatterns"
    by (simp add: dncPatterns_def)
  have e: "trim (toLowerCase (js '' Unsubscribe me tomorrow '')) = [] @ js ''unsubscribe'' @ js '' me tomorrow''"
    by code_simp
  have c1: "categorizeUserResponsePatternMatching (js ''Please STOP calling me, not at 3pm, no'')
              = DoNotContact"
    using pattern_matching_priority [of "(js ''Please STOP calling me, not at 3pm, no'')"] d by blast
  have c2: "categorizeUserResponsePatternMatching (js ''Sure, at 10:30'') = CallAtDifferentTime"
    using pattern_matching_priority [of "(js ''Sure, at 10:30'')"] t by blast
  have c3: "categorizeUserResponsePatternMatching (js ''Yes, not busy'') = Yes"
    using pattern_matching_priority [of "(js ''Yes, not busy'')"] y by blast
  have c4: "categorizeUserResponsePatternMatching (js ''Nope'') = No"
    using pattern_matching_priority [of "(js ''Nope'')"] n by blast
  have c5: "categorizeUserResponsePatternMatching (js ''huh?'') = UnknownMessage"
    using pattern_matching_priority [of "(js ''huh?'')"] u by blast
  have c6: "categorizeUserResponsePatternMatching (js '' Unsubscribe me tomorrow '') = DoNotContact"
    using pattern_matching_priority [of "(js '' Unsubscribe me tomorrow '')"] m e by blast
  show ?thesis using c1 c2 c3 c4 c5 c6 m e by blast
qed

text \<open>
  Claim C8, as amended. A text whose lower-case form, trimmed, is shorter than 2 code
  units is classified as 24 hours later (No response) whatever \<open>aiEnabled\<close>, the API key
  and the external classifier are, and no request is sent to the classifier. The length
  is that of the lower-case form, which the code measures, not that of the text.
\<close>

theorem short_text_is_no_response:
  "length (trim (toLowerCase t)) < 2 \<Longrightarrow>
     categorizeUserResponse ai key classifier t = (NoResponse24h, [])"
  by (simp add: categorizeUserResponse_def categorizeUserResponseStart_def Let_def)

theorem short_text_is_no_response_witness:
  "length (trim (toLowerCase (js '' K ''))) < 2 \<and>
   categorizeUserResponse True (Some (js ''sk-example'')) alwaysYes (js '' K '')
     = (NoResponse24h, [])"
proof -
  have h: "length (trim (toLowerCase (js '' K ''))) < 2" by code_simp
  show ?thesis using h short_text_is_no_response [OF h] by simp
qed

text \<open>
  The claim as stated fails. The text of the one character U+0130, the capital I with a
  dot above, has the trimmed length 1; its lower-case form has two code units, so the
  short circuit is not taken: with the AI off the patterns classify it as Unknown
  message, and with the AI on and an API key it is sent to the classifier.
\<close>

theorem short_text_is_no_response_counterexample:
  "length (trim [0x130]) < 2
   \<and> categorizeUserResponse False None alwaysYes [0x130] = (UnknownMessage, [])
   \<and> categorizeUserResponse True (Some (js ''sk-example'')) alwaysYes [0x130] = (Yes, [[0x130]])"
  by code_simp

text \<open>
  Claim C10. The time patterns hold the bare substrings am and pm, so a text whose trimmed
  lower-case form contains one of them anywhere and contains no Do-not-contact pattern is
  classified as Call at a different time, whether or not it speaks of a time.
\<close>

theorem am_pm_substring_is_different_time:
  assumes "includesStr (trim (toLowerCase t)) (js ''am'') \<or> includesStr (trim (toLowerCase t)) (js ''pm'')"
    and "\<not> some dncPatterns (includesStr (trim (toLowerCase t)))"
  shows "categorizeUserResponsePatternMatching t = CallAtDifferentTime"
proof -
  have "Str (js ''am'') \<in> set timePatterns" "Str (js ''pm'') \<in> set timePatterns"
    by (simp_all add: timePatterns_def)
  with assms(1) have "some timePatterns (matchesPattern (trim (toLowerCase t)))"
    unfolding some_def list_ex_iff by (metis matchesPattern.simps(1))
  with assms(2) show ?thesis
    by (simp add: categorizeUserResponsePatternMatching_def Let_def)
qed

theorem am_pm_substring_is_different_time_witness:
  "(includesStr (trim (toLowerCase (js ''My name is Bob''))) (js ''am'')
      \<or> includesStr (trim (toLowerCase (js ''My name is Bob''))) (js ''pm''))
   \<and> \<not> some dncPatterns (includesStr (trim (toLowerCase (js ''My name is Bob''))))
   \<and> categorizeUserResponsePatternMatching (js ''My name is Bob'') = CallAtDifferentTime"
proof -
  have h: "includesStr (trim (toLowerCase (js ''My name is Bob''))) (js ''am'')
      \<or> includesStr (trim (toLowerCase (js ''My name is Bob''))) (js ''pm'')" by code_simp
  have n: "\<not> some dncPatterns (includesStr (trim (toLowerCase (js ''My name is Bob''))))"
    by code_simp
  show ?thesis using h n am_pm_substring_is_different_time [OF h n] by simp
qed

section \<open>Frame lemmas\<close>

lemma addMessage_frame:
  "currentState (addMessage x t opts s) = currentState s"
  "scheduledDateTime (addMessage x t opts s) = scheduledDateTime s"
  "isAfter24HourFollowup (addMessage x t opts s) = isAfter24HourFollowup s"
  "userHasStopped (addMessage x t opts s) = userHasStopped s"
  "selectedWorkflow (addMessage x t opts s) = selectedWorkflow s"
  "selectedVersion (addMessage x t opts s) = selectedVersion s"
  "aiEnabled (addMessage x t opts s) = aiEnabled s"
  "timers (addMessage x t opts s) = timers s"
  by (simp_all add: addMessage_def renderMessages_def renderOptions_def clearInputArea_def
        Let_def split: option.split)

lemma setTimeout_frame:
  "currentState (setTimeout c s) = currentState s"
  "scheduledDateTime (setTimeout c s) = scheduledDateTime s"
  "isAfter24HourFollowup (setTimeout c s) = isAfter24HourFollowup s"
  "userHasStopped (setTimeout c s) = userHasStopped s"
  "selectedWorkflow (setTimeout c s) = selectedWorkflow s"
  "selectedVersion (setTimeout c s) = selectedVersion s"
  "aiEnabled (setTimeout c s) = aiEnabled s"
  "messages (setTimeout c s) = messages s"
  "inputArea (setTimeout c s) = inputArea s"
  "timers (setTimeout c s) = timers s @ [c]"
  by (simp_all add: setTimeout_def)

lemma addMessage_Bot_stopped: "userHasStopped s \<Longrightarrow> addMessage Bot t opts s = s"
  by (simp add: addMessage_def)

lemma addMessage_User:
  "addMessage User t opts s =
     s\<lparr>messages := messages s @ [\<lparr>msgText = t, sender = User, options = opts\<rparr>],
       inputArea := Cleared\<rparr>"
  by (simp add: addMessage_def renderMessages_def clearInputArea_def Let_def split: option.split)

subsection \<open>The opt-out flag and the messages of the bot\<close>

lemma optOutView_update:
  "optOutView (s\<lparr>currentState := a\<rparr>) = optOutView s"
  "optOutView (s\<lparr>scheduledDateTime := b\<rparr>) = optOutView s"
  "optOutView (s\<lparr>isAfter24HourFollowup := c\<rparr>) = optOutView s"
  "optOutView (s\<lparr>selectedWorkflow := d\<rparr>) = optOutView s"
  "optOutView (s\<lparr>selectedVersion := e\<rparr>) = optOutView s"
  "optOutView (s\<lparr>timers := f\<rparr>) = optOutView s"
  "optOutView (s\<lparr>inputArea := g\<rparr>) = optOutView s"
  "optOutView (setTimeout c' s) = optOutView s"
  by (simp_all add: optOutView_def botMessages_def setTimeout_def)

lemma optOutView_addMessage:
  "userHasStopped s \<Longrightarrow> optOutView (addMessage x t opts s) = optOutView s"
  by (cases x) (simp_all add: addMessage_Bot_stopped addMessage_User optOutView_def botMessages_def)

lemma optOutView_handleConfirmVisitResponse:
  "optOutView (handleConfirmVisitResponse option s) = optOutView s"
  by (cases "currentState s") (simp_all add: handleConfirmVisitResponse_def optOutView_update)

lemma optOutView_handleResponseToCallQuestion:
  "userHasStopped s \<Longrightarrow> optOutView (handleResponseToCallQuestion option s) = optOutView s"
  by (simp add: handleResponseToCallQuestion_def showDateTimePicker_def
        showTimePassingAnimation_def optOutView_update optOutView_addMessage)

lemma optOutView_handleOptionSelect:
  assumes "userHasStopped s"
  shows "optOutView (handleOptionSelect option s) = optOutView s"
proof -
  let ?s1 = "addMessage User option None s"
  have s1: "userHasStopped ?s1" "optOutView ?s1 = optOutView s"
    using assms by (simp_all add: addMessage_frame optOutView_addMessage)
  have "optOutView (handleOptionSelect option s) = optOutView ?s1"
    using s1(1)
    by (cases "currentState ?s1")
       (simp_all add: handleOptionSelect_def Let_def optOutView_handleConfirmVisitResponse
          optOutView_handleResponseToCallQuestion handleBetterTimeResponse_def
          handleAfterCancelResponse_def showDateTimePicker_def showTimePassingAnimation_def
          optOutView_update)
  with s1(2) show ?thesis by simp
qed

lemma optOutView_handleTextInput:
  assumes "userHasStopped s"
  shows "optOutView (handleTextInput env v s) = optOutView s"
proof -
  let ?s1 = "addMessage User (trim v) None s"
  have s1: "userHasStopped ?s1" "optOutView ?s1 = optOutView s"
    using assms by (simp_all add: addMessage_frame optOutView_addMessage)
  have stop: "optOutView (addMessage User (trim v) None (s\<lparr>userHasStopped := True\<rparr>)) = optOutView s"
    using assms by (simp add: addMessage_User optOutView_def botMessages_def)
  show ?thesis
    using s1 stop
    by (simp add: handleTextInput_def Let_def switchToConfirmVisitWorkflow_def
          optOutView_update optOutView_handleOptionSelect split: Classification.split)
qed

lemma optOutView_handleDateTimeConfirm:
  assumes "userHasStopped s"
  shows "optOutView (case handleDateTimeConfirm env date hour minute ampm s of
                       Inl alert \<Rightarrow> s | Inr s' \<Rightarrow> s') = optOutView s"
  using assms
  by (simp add: handleDateTimeConfirm_def Let_def optOutView_update optOutView_addMessage)

lemma optOutView_fireCallback:
  assumes "userHasStopped s" and "c \<noteq> StartConversation"
  shows "optOutView (fireCallback env c reply s) = optOutView s"
  using assms
  by (cases c)
     (simp_all add: showCallingNotification_def declineFollowup_def showDateTimePicker_def
        confirmVisitPrompt_def rescheduleQuestion_def timePassingFollowup_def classified_def
        Let_def optOutView_update optOutView_addMessage optOutView_handleOptionSelect
        addMessage_frame)

lemma optOutView_step:
  assumes "userHasStopped s" and "\<not> restartsConversation e s"
  shows "optOutView (step env e s) = optOutView s"
proof (cases e)
  case (Fire n reply)
  show ?thesis
  proof (cases "n < length (timers s)")
    case True
    with assms(2) Fire have "timers s ! n \<noteq> StartConversation" by simp
    moreover have "userHasStopped (s\<lparr>timers := take n (timers s) @ drop (Suc n) (timers s)\<rparr>)"
      using assms(1) by simp
    ultimately show ?thesis
      using True Fire by (simp add: fire_def optOutView_fireCallback optOutView_update)
  next
    case False
    with Fire show ?thesis by (simp add: fire_def)
  qed
next
  case (SelectVersion version)
  with assms show ?thesis
    by (simp add: handleVersionSelect_def Let_def renderOptions_def optOutView_update
          split: option.split)
qed (use assms in \<open>simp_all add: optOutView_handleOptionSelect optOutView_handleTextInput
       optOutView_handleDateTimeConfirm handleCallAccept_def handleCallDecline_def
       handleEndCall_def handleDateTimeCancel_def optOutView_update optOutView_addMessage\<close>)


section \<open>Opting out\<close>

lemma run_append: "run env (es @ fs) s = run env fs (run env es s)"
  by (induction es arbitrary: s) simp_all

lemma optOutView_run:
  "userHasStopped s \<Longrightarrow> withoutRestart env es s \<Longrightarrow> optOutView (run env es s) = optOutView s"
proof (induction es arbitrary: s)
  case Nil
  then show ?case by simp
next
  case (Cons e es)
  from Cons.prems have v: "optOutView (step env e s) = optOutView s"
    by (simp add: optOutView_step)
  with Cons.prems(1) have "userHasStopped (step env e s)"
    by (simp add: optOutView_def)
  with Cons.IH Cons.prems(2) v show ?case by simp
qed

text \<open>
  Claim C3. Once \<open>userHasStopped\<close> is true, \<open>addMessage\<close> for the bot returns the session as
  it is, and this stays so across every sequence of further events (options, free texts,
  buttons of the call and of the picker, pending callbacks) none of which starts the
  conversation anew: the flag stays true and the messages of the bot in the log stay the
  same. An event after which the flag is false starts the conversation anew.
\<close>

theorem opt_out_silences_the_bot:
  assumes "userHasStopped s"
  shows "(withoutRestart env es s \<longrightarrow>
            userHasStopped (run env es s)
            \<and> botMessages (run env es s) = botMessages s
            \<and> addMessage Bot txt opts (run env es s) = run env es s)
         \<and> (\<not> userHasStopped (step env e s) \<longrightarrow> restartsConversation e s)"
proof (intro conjI impI)
  assume w: "withoutRestart env es s"
  with assms have v: "optOutView (run env es s) = optOutView s"
    by (rule optOutView_run)
  with assms show "userHasStopped (run env es s)" by (simp add: optOutView_def)
  then show "addMessage Bot txt opts (run env es s) = run env es s"
    by (rule addMessage_Bot_stopped)
  from v show "botMessages (run env es s) = botMessages s" by (simp add: optOutView_def)
next
  assume n: "\<not> userHasStopped (step env e s)"
  show "restartsConversation e s"
  proof (rule ccontr)
    assume "\<not> restartsConversation e s"
    with assms have "optOutView (step env e s) = optOutView s" by (rule optOutView_step)
    with assms n show False by (simp add: optOutView_def)
  qed
qed

theorem opt_out_silences_the_bot_witness:
  "userHasStopped optedOutSession
   \<and> withoutRestart exampleEnv
        [SelectOption (js ''No''), Fire 0 None, SubmitText (js ''are you there?''), EndCall] optedOutSession
   \<and> userHasStopped
        (run exampleEnv
           [SelectOption (js ''No''), Fire 0 None, SubmitText (js ''are you there?''), EndCall] optedOutSession)
   \<and> botMessages
        (run exampleEnv
           [SelectOption (js ''No''), Fire 0 None, SubmitText (js ''are you there?''), EndCall] optedOutSession)
       = botMessages optedOutSession
   \<and> \<not> userHasStopped (step exampleEnv ResetConversation optedOutSession)
   \<and> restartsConversation ResetConversation optedOutSession"
proof -
  have a: "userHasStopped optedOutSession" by code_simp
  have b: "withoutRestart exampleEnv
        [SelectOption (js ''No''), Fire 0 None, SubmitText (js ''are you there?''), EndCall] optedOutSession"
    by code_simp
  have c: "\<not> userHasStopped (step exampleEnv ResetConversation optedOutSession)" by code_simp
  show ?thesis
    using a b c
      opt_out_silences_the_bot [OF a, of exampleEnv
        "[SelectOption (js ''No''), Fire 0 None, SubmitText (js ''are you there?''), EndCall]" _ _
        ResetConversation]
    by blast
qed

section \<open>The switch to the Confirm Visit workflow\<close>

subsection \<open>An opted-out session has no text field\<close>

lemma quiet_update:
  "optedOutQuiet (s\<lparr>currentState := a\<rparr>) = optedOutQuiet s"
  "optedOutQuiet (s\<lparr>scheduledDateTime := b\<rparr>) = optedOutQuiet s"
  "optedOutQuiet (s\<lparr>isAfter24HourFollowup := c\<rparr>) = optedOutQuiet s"
  "optedOutQuiet (s\<lparr>selectedWorkflow := d\<rparr>) = optedOutQuiet s"
  "optedOutQuiet (s\<lparr>selectedVersion := e\<rparr>) = optedOutQuiet s"
  "optedOutQuiet (s\<lparr>timers := f\<rparr>) = optedOutQuiet s"
  "optedOutQuiet (setTimeout c' s) = optedOutQuiet s"
  by (simp_all add: optedOutQuiet_def setTimeout_def)

lemma quiet_not_stopped: "\<not> userHasStopped s \<Longrightarrow> optedOutQuiet s"
  by (simp add: optedOutQuiet_def)

lemma quiet_addMessage: "optedOutQuiet s \<Longrightarrow> optedOutQuiet (addMessage x t opts s)"
proof (cases x)
  case Bot
  assume q: "optedOutQuiet s"
  show ?thesis
  proof (cases "userHasStopped s")
    case True
    with Bot q show ?thesis by (simp add: addMessage_Bot_stopped)
  next
    case False
    then have "\<not> userHasStopped (addMessage x t opts s)" by (simp add: addMessage_frame)
    then show ?thesis by (rule quiet_not_stopped)
  qed
next
  case User
  then show ?thesis by (simp add: addMessage_User optedOutQuiet_def)
qed

lemma quiet_handleConfirmVisitResponse:
  "optedOutQuiet (handleConfirmVisitResponse option s) = optedOutQuiet s"
  by (cases "currentState s") (simp_all add: handleConfirmVisitResponse_def quiet_update)

lemma quiet_handleResponseToCallQuestion:
  "optedOutQuiet s \<Longrightarrow> optedOutQuiet (handleResponseToCallQuestion option s)"
  by (simp add: handleResponseToCallQuestion_def showDateTimePicker_def
        showTimePassingAnimation_def quiet_update quiet_addMessage)

lemma quiet_handleOptionSelect:
  assumes "optedOutQuiet s"
  shows "optedOutQuiet (handleOptionSelect option s)"
proof -
  have s1: "optedOutQuiet (addMessage User opt None s)" for opt
    using assms by (rule quiet_addMessage)
  show ?thesis
    by (cases "currentState (addMessage User option None s)")
       (simp_all add: handleOptionSelect_def Let_def quiet_handleConfirmVisitResponse
          quiet_handleResponseToCallQuestion handleBetterTimeResponse_def
          handleAfterCancelResponse_def showDateTimePicker_def showTimePassingAnimation_def
          quiet_update s1)
qed

lemma quiet_handleTextInput:
  assumes "optedOutQuiet s"
  shows "optedOutQuiet (handleTextInput env v s)"
proof -
  let ?s1 = "addMessage User (trim v) None s"
  have s1: "optedOutQuiet ?s1" using assms by (rule quiet_addMessage)
  have stop: "optedOutQuiet (addMessage User (trim v) None (s\<lparr>userHasStopped := True\<rparr>))"
    by (simp add: addMessage_User optedOutQuiet_def)
  show ?thesis
    using assms s1 stop
    by (simp add: handleTextInput_def Let_def switchToConfirmVisitWorkflow_def
          quiet_update quiet_handleOptionSelect split: Classification.split)
qed

lemma quiet_handleDateTimeConfirm:
  assumes "optedOutQuiet s"
  shows "optedOutQuiet (case handleDateTimeConfirm env date hour minute ampm s of
                          Inl alert \<Rightarrow> s | Inr s' \<Rightarrow> s')"
proof -
  have "optedOutQuiet (addMessage Bot t None (s\<lparr>scheduledDateTime := d\<rparr>))" for t d
    using assms by (simp add: quiet_addMessage quiet_update)
  with assms show ?thesis
    by (simp add: handleDateTimeConfirm_def Let_def quiet_update)
qed

lemma startConversation_not_stopped: "\<not> userHasStopped (startConversation env s)"
  by (simp add: startConversation_def startProductQuestionConversation_def
        startConfirmVisitConversation_def Let_def addMessage_frame setTimeout_frame)

lemma resetConversation_not_stopped: "\<not> userHasStopped (resetConversation env s)"
  by (simp add: resetConversation_def startConversation_not_stopped)

lemma quiet_fireCallback:
  assumes "optedOutQuiet s"
  shows "optedOutQuiet (fireCallback env c reply s)"
  using assms
  by (cases c)
     (simp_all add: showCallingNotification_def declineFollowup_def showDateTimePicker_def
        confirmVisitPrompt_def rescheduleQuestion_def timePassingFollowup_def classified_def
        Let_def quiet_update quiet_addMessage quiet_handleOptionSelect
        quiet_not_stopped startConversation_not_stopped)

lemma quiet_handleVersionSelect:
  assumes "optedOutQuiet s"
  shows "optedOutQuiet (handleVersionSelect env version s)"
proof (cases "userHasStopped s")
  case True
  with assms have "inputArea s = Cleared" "messages s \<noteq> []" "sender (last (messages s)) = User"
    by (simp_all add: optedOutQuiet_def)
  with assms show ?thesis
    by (simp add: handleVersionSelect_def Let_def quiet_update quiet_not_stopped
          resetConversation_not_stopped split: option.split)
next
  case False
  then have "\<not> userHasStopped (handleVersionSelect env version s)"
    by (simp add: handleVersionSelect_def Let_def renderOptions_def
          resetConversation_not_stopped split: option.split)
  then show ?thesis by (rule quiet_not_stopped)
qed

lemma quiet_step:
  assumes "optedOutQuiet s"
  shows "optedOutQuiet (step env e s)"
proof (cases e)
  case (Fire n reply)
  have "optedOutQuiet (s\<lparr>timers := take n (timers s) @ drop (Suc n) (timers s)\<rparr>)"
    using assms by (simp add: quiet_update)
  with assms Fire show ?thesis by (simp add: fire_def quiet_fireCallback)
qed (use assms in \<open>simp_all add: quiet_handleOptionSelect quiet_handleTextInput
       quiet_handleDateTimeConfirm quiet_handleVersionSelect handleCallAccept_def
       handleCallDecline_def handleEndCall_def handleDateTimeCancel_def handleWorkflowSelect_def
       handleAIToggle_def quiet_update quiet_addMessage quiet_not_stopped
       resetConversation_not_stopped\<close>)

lemma reachable_quiet: "reachable env s \<Longrightarrow> optedOutQuiet s"
proof (induction rule: reachable.induct)
  case reachable_loaded
  show ?case by (simp add: optedOutQuiet_def loaded_def)
next
  case (reachable_step s e)
  then show ?case by (simp add: quiet_step)
qed

lemma reachable_run: "reachable env s \<Longrightarrow> reachable env (run env es s)"
  by (induction es arbitrary: s) (simp_all add: reachable_step)

text \<open>While the text field is shown, the session has not opted out.\<close>

lemma text_field_not_opted_out:
  "reachable env s \<Longrightarrow> inputArea s = TextInput \<Longrightarrow> \<not> userHasStopped s"
  using reachable_quiet [of env s] by (auto simp: optedOutQuiet_def)

lemma confirmVisitPatterns_long: "p \<in> set confirmVisitPatterns \<Longrightarrow> 10 \<le> length p"
  by (auto simp: confirmVisitPatterns_def length_js)

lemma confirm_visit_intent_long:
  assumes "isConfirmVisitIntent u"
  shows "5 \<le> length u"
proof -
  from assms obtain p where p: "p \<in> set confirmVisitPatterns"
    and i: "includesStr (trim (toLowerCase u)) p"
    by (auto simp: isConfirmVisitIntent_def some_def list_ex_iff Let_def)
  have "10 \<le> length p" using p by (rule confirmVisitPatterns_long)
  also have "\<dots> \<le> length (trim (toLowerCase u))" using i by (rule includesStr_length)
  also have "\<dots> \<le> length (toLowerCase u)" by (rule length_trim)
  also have "\<dots> \<le> 2 * length u" by (rule length_toLowerCase)
  finally show ?thesis by simp
qed

lemma confirm_visit_intent_not_stop:
  assumes "isConfirmVisitIntent u"
  shows "u \<noteq> []" and "toUpperCase u \<noteq> js ''STOP''"
proof -
  have l: "5 \<le> length u" using assms by (rule confirm_visit_intent_long)
  then show "u \<noteq> []" by auto
  show "toUpperCase u \<noteq> js ''STOP''"
  proof
    assume "toUpperCase u = js ''STOP''"
    then have "length (toUpperCase u) = 4" by (simp add: length_js)
    with length_toUpperCase [of u] l show False by simp
  qed
qed

text \<open>
  Claim C4. When a free text is submitted (the text field is shown) while the Webform
  workflow is selected and the text matches a confirm-visit pattern, \<open>handleTextInput\<close>
  appends the text to the log, selects the Confirm Visit workflow and sets the state
  \<open>confirm_visit_initial\<close>; the callback it schedules, when it fires, appends the first
  question of Confirm Visit with its options and sets the state \<open>confirm_visit_waiting\<close>.
  The messages that were in the log stay as they are.
\<close>

theorem confirm_visit_intent_switches_workflow:
  assumes "reachable env s" and "inputArea s = TextInput"
    and "selectedWorkflow s = js ''webform''" and "isConfirmVisitIntent (trim v)"
  shows "handleTextInput env v s =
           s\<lparr>messages := messages s @ [\<lparr>msgText = trim v, sender = User, options = None\<rparr>],
             inputArea := Cleared,
             selectedWorkflow := js ''confirm visit'', selectedVersion := js ''A'',
             currentState := confirm_visit_initial,
             timers := timers s @ [ConfirmVisitPrompt (initialMessage env)]\<rparr>
         \<and> fire env (length (timers s)) reply (handleTextInput env v s) =
           s\<lparr>messages := messages s @
               [\<lparr>msgText = trim v, sender = User, options = None\<rparr>,
                \<lparr>msgText = initialMessage env, sender = Bot, options = Some confirmVisitOptions\<rparr>],
             inputArea := (if aiEnabled s then TextInput else OptionButtons confirmVisitOptions),
             selectedWorkflow := js ''confirm visit'', selectedVersion := js ''A'',
             currentState := confirm_visit_waiting\<rparr>"
proof -
  have ns: "\<not> userHasStopped s" using assms(1,2) by (rule text_field_not_opted_out)
  note nz = confirm_visit_intent_not_stop [OF assms(4)]
  have h: "handleTextInput env v s =
           s\<lparr>messages := messages s @ [\<lparr>msgText = trim v, sender = User, options = None\<rparr>],
             inputArea := Cleared,
             selectedWorkflow := js ''confirm visit'', selectedVersion := js ''A'',
             currentState := confirm_visit_initial,
             timers := timers s @ [ConfirmVisitPrompt (initialMessage env)]\<rparr>"
    using assms(2,3,4) nz
    by (simp add: handleTextInput_def Let_def switchToConfirmVisitWorkflow_def addMessage_User
          setTimeout_def)
  show ?thesis
    unfolding h using ns
    by (simp add: fire_def confirmVisitPrompt_def addMessage_def renderMessages_def
          renderOptions_def Let_def)
qed

theorem confirm_visit_intent_switches_workflow_witness:
  "reachable exampleEnv webformWaiting \<and> inputArea webformWaiting = TextInput
   \<and> selectedWorkflow webformWaiting = js ''webform''
   \<and> isConfirmVisitIntent (trim (js ''I'd like to confirm my appointment''))
   \<and> selectedWorkflow (handleTextInput exampleEnv (js ''I'd like to confirm my appointment'') webformWaiting)
       = js ''confirm visit''
   \<and> currentState (handleTextInput exampleEnv (js ''I'd like to confirm my appointment'') webformWaiting)
       = confirm_visit_initial
   \<and> currentState
        (fire exampleEnv (length (timers webformWaiting)) None
           (handleTextInput exampleEnv (js ''I'd like to confirm my appointment'') webformWaiting))
       = confirm_visit_waiting
   \<and> messages
        (fire exampleEnv (length (timers webformWaiting)) None
           (handleTextInput exampleEnv (js ''I'd like to confirm my appointment'') webformWaiting))
       = messages webformWaiting @
           [\<lparr>msgText = trim (js ''I'd like to confirm my appointment''), sender = User, options = None\<rparr>,
            \<lparr>msgText = initialMessage exampleEnv, sender = Bot,
              options = Some confirmVisitOptions\<rparr>]"
proof -
  have r: "reachable exampleEnv webformWaiting"
    unfolding webformWaiting_def by (rule reachable_run) (rule reachable_loaded)
  have a: "inputArea webformWaiting = TextInput" by code_simp
  have b: "selectedWorkflow webformWaiting = js ''webform''" by code_simp
  have c: "isConfirmVisitIntent (trim (js ''I'd like to confirm my appointment''))" by code_simp
  note t = confirm_visit_intent_switches_workflow [OF r a b c, of None]
  have h: "handleTextInput exampleEnv (js ''I'd like to confirm my appointment'') webformWaiting =
      webformWaiting
        \<lparr>messages := messages webformWaiting @
           [\<lparr>msgText = trim (js ''I'd like to confirm my appointment''), sender = User,
              options = None\<rparr>],
         inputArea := Cleared,
         selectedWorkflow := js ''confirm visit'', selectedVersion := js ''A'',
         currentState := confirm_visit_initial,
         timers := timers webformWaiting @ [ConfirmVisitPrompt (initialMessage exampleEnv)]\<rparr>"
    using t by (rule conjunct1)
  have f: "fire exampleEnv (length (timers webformWaiting)) None
        (handleTextInput exampleEnv (js ''I'd like to confirm my appointment'') webformWaiting) =
      webformWaiting
        \<lparr>messages := messages webformWaiting @
           [\<lparr>msgText = trim (js ''I'd like to confirm my appointment''), sender = User,
              options = None\<rparr>,
            \<lparr>msgText = initialMessage exampleEnv, sender = Bot,
              options = Some confirmVisitOptions\<rparr>],
         inputArea :=
           (if aiEnabled webformWaiting then TextInput else OptionButtons confirmVisitOptions),
         selectedWorkflow := js ''confirm visit'', selectedVersion := js ''A'',
         currentState := confirm_visit_waiting\<rparr>"
    using t by (rule conjunct2)
  have 1: "selectedWorkflow
        (handleTextInput exampleEnv (js ''I'd like to confirm my appointment'') webformWaiting)
      = js ''confirm visit''"
    by (simp add: h)
  have 2: "currentState
        (handleTextInput exampleEnv (js ''I'd like to confirm my appointment'') webformWaiting)
      = confirm_visit_initial"
    by (simp add: h)
  have 3: "currentState
        (fire exampleEnv (length (timers webformWaiting)) None
           (handleTextInput exampleEnv (js ''I'd like to confirm my appointment'') webformWaiting))
      = confirm_visit_waiting"
    by (simp add: f)
  have 4: "messages
        (fire exampleEnv (length (timers webformWaiting)) None
           (handleTextInput exampleEnv (js ''I'd like to confirm my appointment'') webformWaiting))
      = messages webformWaiting @
          [\<lparr>msgText = trim (js ''I'd like to confirm my appointment''), sender = User,
             options = None\<rparr>,
           \<lparr>msgText = initialMessage exampleEnv, sender = Bot,
             options = Some confirmVisitOptions\<rparr>]"
    by (simp add: f)
  show ?thesis using r a b c 1 2 3 4 by blast
qed

section \<open>Reset and the pending callbacks\<close>

text \<open>
  Claim C5, as amended. \<open>resetConversation\<close> empties the log and the input area, clears
  the opt-out flag, the follow-up flag and the scheduled time, and starts the conversation
  of the selected workflow: its first messages, its first state, and its first callback.
  It cancels nothing: every callback that was pending (a delayed message, a waiting
  classification) is still pending, in front of the new one, and when it fires after the
  reset it runs on the new session as any callback does.
\<close>

theorem reset_keeps_pending_callbacks:
  "resetConversation env s =
     s\<lparr>messages :=
         (if selectedWorkflow s = js ''product question'' then
            [\<lparr>msgText = ADT_INTRO_MESSAGE, sender = Bot, options = None\<rparr>,
             \<lparr>msgText = js ''We received your product question! We are calling now to help.'',
               sender = Bot, options = None\<rparr>]
          else if selectedWorkflow s = js ''confirm visit'' then []
          else if selectedVersion s = js ''A'' then
            [\<lparr>msgText = ADT_INTRO_MESSAGE, sender = Bot, options = None\<rparr>,
             \<lparr>msgText = js ''We received your interest form! We are calling now.'',
               sender = Bot, options = None\<rparr>]
          else []),
       currentState :=
         (if selectedWorkflow s = js ''confirm visit'' then confirm_visit_initial else initial),
       userHasStopped := False,
       scheduledDateTime := None,
       isAfter24HourFollowup := False,
       inputArea := Cleared,
       timers := timers s @
         [if selectedWorkflow s = js ''confirm visit'' then ConfirmVisitPrompt (initialMessage env)
          else ShowCallingNotification]\<rparr>
   \<and> (n < length (timers s) \<longrightarrow>
        fire env n reply (resetConversation env s) =
          fireCallback env (timers s ! n) reply
            ((resetConversation env s)
               \<lparr>timers := take n (timers (resetConversation env s)) @
                           drop (Suc n) (timers (resetConversation env s))\<rparr>))"
proof -
  have r: "resetConversation env s =
     s\<lparr>messages :=
         (if selectedWorkflow s = js ''product question'' then
            [\<lparr>msgText = ADT_INTRO_MESSAGE, sender = Bot, options = None\<rparr>,
             \<lparr>msgText = js ''We received your product question! We are calling now to help.'',
               sender = Bot, options = None\<rparr>]
          else if selectedWorkflow s = js ''confirm visit'' then []
          else if selectedVersion s = js ''A'' then
            [\<lparr>msgText = ADT_INTRO_MESSAGE, sender = Bot, options = None\<rparr>,
             \<lparr>msgText = js ''We received your interest form! We are calling now.'',
               sender = Bot, options = None\<rparr>]
          else []),
       currentState :=
         (if selectedWorkflow s = js ''confirm visit'' then confirm_visit_initial else initial),
       userHasStopped := False,
       scheduledDateTime := None,
       isAfter24HourFollowup := False,
       inputArea := Cleared,
       timers := timers s @
         [if selectedWorkflow s = js ''confirm visit'' then ConfirmVisitPrompt (initialMessage env)
          else ShowCallingNotification]\<rparr>"
    by (simp add: resetConversation_def startConversation_def startProductQuestionConversation_def
          startConfirmVisitConversation_def addMessage_def renderMessages_def clearInputArea_def
          setTimeout_def Let_def js_eq_iff)
  have t: "timers (resetConversation env s) = timers s @
         [if selectedWorkflow s = js ''confirm visit'' then ConfirmVisitPrompt (initialMessage env)
          else ShowCallingNotification]"
    by (subst r) simp
  have f: "n < length (timers s) \<longrightarrow>
        fire env n reply (resetConversation env s) =
          fireCallback env (timers s ! n) reply
            ((resetConversation env s)
               \<lparr>timers := take n (timers (resetConversation env s)) @
                           drop (Suc n) (timers (resetConversation env s))\<rparr>)"
    by (simp add: fire_def t nth_append)
  from r f show ?thesis by (rule conjI)
qed

theorem reset_keeps_pending_callbacks_witness:
  "0 < length (timers declinedSession)
   \<and> timers declinedSession ! 0 = DeclineFollowup
   \<and> fire exampleEnv 0 None (resetConversation exampleEnv declinedSession) =
       fireCallback exampleEnv DeclineFollowup None
         ((resetConversation exampleEnv declinedSession)
            \<lparr>timers := take 0 (timers (resetConversation exampleEnv declinedSession)) @
                        drop (Suc 0) (timers (resetConversation exampleEnv declinedSession))\<rparr>)"
proof -
  have a: "0 < length (timers declinedSession)" by code_simp
  have b: "timers declinedSession ! 0 = DeclineFollowup" by code_simp
  have "fire exampleEnv 0 None (resetConversation exampleEnv declinedSession) =
       fireCallback exampleEnv (timers declinedSession ! 0) None
         ((resetConversation exampleEnv declinedSession)
            \<lparr>timers := take 0 (timers (resetConversation exampleEnv declinedSession)) @
                        drop (Suc 0) (timers (resetConversation exampleEnv declinedSession))\<rparr>)"
    using a reset_keeps_pending_callbacks [of exampleEnv declinedSession 0 None] by blast
  with a b show ?thesis by simp
qed

text \<open>
  The claim as stated fails. The call is declined, which schedules the question for 500 ms
  later; the conversation is reset before that; the question then fires into the new
  session, appends its message and sets \<open>waiting_for_response\<close>. In the same way the
  answer of the classifier to a text of the old session is dispatched in the new one and
  appends its label to the new log.
\<close>

theorem stale_callback_runs_after_reset_counterexample:
  "timers declinedSession = [DeclineFollowup]
   \<and> currentState (resetConversation exampleEnv declinedSession) = initial
   \<and> currentState (fire exampleEnv 0 None (resetConversation exampleEnv declinedSession))
       = waiting_for_response
   \<and> messages (fire exampleEnv 0 None (resetConversation exampleEnv declinedSession))
       \<noteq> messages (resetConversation exampleEnv declinedSession)
   \<and> timers classifyingSession = [Classified (js ''yes please'')]
   \<and> messages
        (fire keyedEnv 0 (Some (js ''Yes'')) (resetConversation keyedEnv classifyingSession))
       \<noteq> messages (resetConversation keyedEnv classifyingSession)"
  by code_simp

section \<open>The follow-up flag\<close>

text \<open>
  What the dispatch of an option does to the follow-up flag in \<open>waiting_for_response\<close> and
  \<open>followup_next_day\<close> of the Webform and Product Question workflows: Yes clears it, every
  other label leaves it as it is. Yes with the flag set moves to \<open>scheduling_time\<close>; Yes
  with the flag clear schedules the calling notification, whose firing moves to \<open>calling\<close>.
\<close>

lemma flag_handleResponseToCallQuestion:
  "isAfter24HourFollowup (handleResponseToCallQuestion option s)
     = (isAfter24HourFollowup s \<and> option \<noteq> js ''Yes'')"
  by (simp add: handleResponseToCallQuestion_def showDateTimePicker_def
        showTimePassingAnimation_def setTimeout_frame addMessage_frame)

lemma dispatch_to_call_question:
  assumes "selectedWorkflow s \<noteq> js ''confirm visit''"
    and "currentState s = waiting_for_response \<or> currentState s = followup_next_day"
  shows "handleOptionSelect option s =
           handleResponseToCallQuestion option (addMessage User option None s)"
  using assms by (auto simp: handleOptionSelect_def Let_def addMessage_frame)

lemma yes_consumes_the_followup_flag:
  assumes "selectedWorkflow s \<noteq> js ''confirm visit''"
    and "currentState s = waiting_for_response \<or> currentState s = followup_next_day"
  shows "isAfter24HourFollowup (handleOptionSelect option s)
           = (isAfter24HourFollowup s \<and> option \<noteq> js ''Yes'')"
    and "isAfter24HourFollowup s \<Longrightarrow>
           currentState (handleOptionSelect (js ''Yes'') s) = scheduling_time"
    and "\<not> isAfter24HourFollowup s \<Longrightarrow>
           currentState (handleOptionSelect (js ''Yes'') s) = currentState s
           \<and> timers (handleOptionSelect (js ''Yes'') s) = timers s @ [ShowCallingNotification]
           \<and> currentState (fire env (length (timers s)) reply (handleOptionSelect (js ''Yes'') s))
               = calling"
proof -
  note d = dispatch_to_call_question [OF assms]
  show "isAfter24HourFollowup (handleOptionSelect option s)
           = (isAfter24HourFollowup s \<and> option \<noteq> js ''Yes'')"
    by (simp add: d flag_handleResponseToCallQuestion addMessage_frame)
  show "isAfter24HourFollowup s \<Longrightarrow>
           currentState (handleOptionSelect (js ''Yes'') s) = scheduling_time"
    by (simp add: d handleResponseToCallQuestion_def showDateTimePicker_def addMessage_frame)
  show "\<not> isAfter24HourFollowup s \<Longrightarrow>
           currentState (handleOptionSelect (js ''Yes'') s) = currentState s
           \<and> timers (handleOptionSelect (js ''Yes'') s) = timers s @ [ShowCallingNotification]
           \<and> currentState (fire env (length (timers s)) reply (handleOptionSelect (js ''Yes'') s))
               = calling"
    by (simp add: d handleResponseToCallQuestion_def addMessage_frame setTimeout_frame
          setTimeout_def fire_def showCallingNotification_def addMessage_User)
qed

text \<open>
  Claim C9. The flag is true only while the session is in \<open>followup_next_day\<close>. The code
  breaks this: the branches of Call at a different time, Do not contact and Unknown
  message leave \<open>followup_next_day\<close> without clearing the flag. Here the follow-up of the
  next day is answered with the text "unsubscribe", which is classified as Do not contact;
  the session is in \<open>ended\<close> and the flag is still true.
\<close>

theorem flag_outlives_followup:
  "currentState followupSession = followup_next_day
   \<and> isAfter24HourFollowup followupSession
   \<and> inputArea followupSession = TextInput
   \<and> currentState (handleTextInput exampleEnv (js ''unsubscribe'') followupSession) = ended
   \<and> isAfter24HourFollowup (handleTextInput exampleEnv (js ''unsubscribe'') followupSession)"
  by code_simp

end
